theory Spec2Isabelle
  imports Complex_Main "HOL-Library.AList"
begin

section \<open>Order lifecycle of the storefront and its admin panel\<close>

text \<open>
  A shallow embedding of the order lifecycle code:
  \<^item> \<open>AdminOrderService\<close> (\<open>updateOrderStatus\<close>, \<open>updateShippingInfo\<close>, \<open>bulkOperation\<close>,
    \<open>restoreInventory\<close>) and its constants (\<open>ORDER_STATUSES\<close>, \<open>ORDER_PRIORITIES\<close>,
    \<open>SHIPPING_CARRIERS\<close>);
  \<^item> the admin Orders page's own \<open>updateOrderStatus\<close> handler;
  \<^item> the checkout \<open>completeOrder\<close> of the Cart page;
  \<^item> the missing-total calculation of \<open>fetchOrders\<close> on the account page.

  Conventions of the model.
  \<^item> A Firestore document is a record whose optional fields are \<open>option\<close>s: \<open>None\<close> is an
    absent field, which reads as \<open>undefined\<close>. Field types are fixed (a status is a string, a
    quantity and an amount are numbers); ill-typed documents are outside the model.
  \<^item> JavaScript numbers (stock, quantity, amounts of money) are doubles, with the rounding of
    their arithmetic.
  \<^item> The record store is an in-memory map. Network failures are outside the model: a read
    or write fails only where the store refuses the data, which it does for an update that
    holds the value \<open>undefined\<close>.
  \<^item> \<open>new Date()\<close> and \<open>serverTimestamp()\<close> are one parameter \<open>now\<close> (milliseconds) of each
    operation.
  \<^item> A \<open>throw\<close> that the operation's own \<open>catch\<close> turns into \<open>{success: false, error}\<close> is the
    \<open>Inl\<close> of a sum; the error constructors name the messages of the source.
  \<^item> Console output is not modelled, but for the one warning of \<open>updateOrderStatus\<close> about a
    transition outside its table, which the model returns as a flag.
\<close>

subsection \<open>JavaScript numbers\<close>

text \<open>
  A JavaScript number is an IEEE 754 double: a finite value, an infinity or NaN. A finite
  double is kept as the rational it stands for (the two zeros are one value). Arithmetic
  computes the exact result and rounds it to the nearest double, ties to the even
  significand, as the language does.
\<close>

datatype number = Finite rat | PosInfinity | NegInfinity | NaN

text \<open>The number of binary digits of a natural number.\<close>

fun bitLength :: "nat \<Rightarrow> nat" where
  "bitLength n = (if n = 0 then 0 else Suc (bitLength (n div 2)))"

declare bitLength.simps [simp del]

text \<open>For \<open>x > 0\<close>, the exponent \<open>e\<close> with \<open>2^e \<le> x < 2^(e+1)\<close>.\<close>

definition binade :: "rat \<Rightarrow> int" where
  "binade x = (if 1 \<le> x then int (bitLength (nat \<lfloor>x\<rfloor>)) - 1
               else - int (bitLength (nat (\<lceil>1 / x\<rceil> - 1))))"

definition pow2 :: "int \<Rightarrow> rat" where
  "pow2 e = (if 0 \<le> e then 2 ^ nat e else 1 / 2 ^ nat (- e))"

text \<open>The nearest integer, a tie going to the even one.\<close>

definition roundHalfEven :: "rat \<Rightarrow> int" where
  "roundHalfEven y =
     (let f = \<lfloor>y\<rfloor>; r = y - of_int f
      in if r < 1 / 2 then f else if 1 / 2 < r then f + 1 else if even f then f else f + 1)"

text \<open>
  Rounding to 53 significant binary digits (fewer below \<open>2^-1022\<close>, where the spacing of
  the doubles stays \<open>2^-1074\<close>), with no bound on the exponent above.
\<close>

definition roundBinary64 :: "rat \<Rightarrow> rat" where
  "roundBinary64 x =
     (if x = 0 then 0
      else (let ulp = pow2 (max (binade \<bar>x\<bar>) (- 1022) - 52)
            in of_int (roundHalfEven (x / ulp)) * ulp))"

text \<open>The largest finite double, and the double (or infinity) that an exact result becomes.\<close>

definition maxDouble :: rat where
  "maxDouble = (2 ^ 53 - 1) * 2 ^ 971"

definition roundToDouble :: "rat \<Rightarrow> number" where
  "roundToDouble x =
     (let y = roundBinary64 x
      in if maxDouble < y then PosInfinity else if y < - maxDouble then NegInfinity else Finite y)"

text \<open>A whole-number literal such as \<open>0\<close> or \<open>50\<close>.\<close>

definition num :: "int \<Rightarrow> number" where
  "num n = roundToDouble (of_int n)"

text \<open>The operators \<open>+\<close>, unary and binary \<open>-\<close>, \<open>*\<close> and \<open><=\<close> on numbers.\<close>

fun dadd :: "number \<Rightarrow> number \<Rightarrow> number" where
  "dadd NaN y = NaN"
| "dadd x NaN = NaN"
| "dadd (Finite a) (Finite b) = roundToDouble (a + b)"
| "dadd PosInfinity NegInfinity = NaN"
| "dadd NegInfinity PosInfinity = NaN"
| "dadd PosInfinity y = PosInfinity"
| "dadd x PosInfinity = PosInfinity"
| "dadd NegInfinity y = NegInfinity"
| "dadd x NegInfinity = NegInfinity"

fun dneg :: "number \<Rightarrow> number" where
  "dneg (Finite a) = Finite (- a)"
| "dneg PosInfinity = NegInfinity"
| "dneg NegInfinity = PosInfinity"
| "dneg NaN = NaN"

definition dsub :: "number \<Rightarrow> number \<Rightarrow> number" where
  "dsub x y = dadd x (dneg y)"

fun isZero :: "number \<Rightarrow> bool" where
  "isZero (Finite a) = (a = 0)"
| "isZero x = False"

fun isNegative :: "number \<Rightarrow> bool" where
  "isNegative (Finite a) = (a < 0)"
| "isNegative NegInfinity = True"
| "isNegative x = False"

fun dmul :: "number \<Rightarrow> number \<Rightarrow> number" where
  "dmul NaN y = NaN"
| "dmul x NaN = NaN"
| "dmul (Finite a) (Finite b) = roundToDouble (a * b)"
| "dmul x y = (if isZero x \<or> isZero y then NaN
               else if isNegative x = isNegative y then PosInfinity else NegInfinity)"

fun dle :: "number \<Rightarrow> number \<Rightarrow> bool" where
  "dle NaN y = False"
| "dle x NaN = False"
| "dle (Finite a) (Finite b) = (a \<le> b)"
| "dle NegInfinity y = True"
| "dle x PosInfinity = True"
| "dle x y = False"

subsection \<open>JavaScript truthiness and defaults\<close>

type_synonym timestamp = nat

definition truthyStr :: "string option \<Rightarrow> bool" where
  "truthyStr v = (case v of None \<Rightarrow> False | Some s \<Rightarrow> s \<noteq> [])"

text \<open>A number is falsy when it is 0 or NaN.\<close>

fun truthyNumber :: "number \<Rightarrow> bool" where
  "truthyNumber (Finite a) = (a \<noteq> 0)"
| "truthyNumber NaN = False"
| "truthyNumber x = True"

definition truthyNum :: "number option \<Rightarrow> bool" where
  "truthyNum v = (case v of None \<Rightarrow> False | Some n \<Rightarrow> truthyNumber n)"

text \<open>\<open>a || b\<close> where \<open>b\<close> is a string that is always there.\<close>

definition orStr :: "string option \<Rightarrow> string \<Rightarrow> string" where
  "orStr a b = (case a of None \<Rightarrow> b | Some s \<Rightarrow> if s = [] then b else s)"

text \<open>
  \<open>a || b\<close> on numbers, \<open>b\<close> always there; and with a \<open>b\<close> that may itself be absent, in which
  case the value is \<open>undefined\<close> (\<open>None\<close>).
\<close>

definition orNum :: "number option \<Rightarrow> number \<Rightarrow> number" where
  "orNum a b = (case a of None \<Rightarrow> b | Some n \<Rightarrow> if truthyNumber n then n else b)"

definition orNumOpt :: "number option \<Rightarrow> number option \<Rightarrow> number option" where
  "orNumOpt a b = (case a of None \<Rightarrow> b | Some n \<Rightarrow> if truthyNumber n then Some n else b)"

text \<open>
  \<open>String.prototype.toLowerCase\<close> and \<open>toUpperCase\<close> on ASCII letters (characters are bytes;
  every other character is left as it is).
\<close>

definition toLowerChar :: "char \<Rightarrow> char" where
  "toLowerChar c =
     (case map_of (zip ''ABCDEFGHIJKLMNOPQRSTUVWXYZ'' ''abcdefghijklmnopqrstuvwxyz'') c of
        None \<Rightarrow> c
      | Some l \<Rightarrow> l)"

definition toUpperChar :: "char \<Rightarrow> char" where
  "toUpperChar c =
     (case map_of (zip ''abcdefghijklmnopqrstuvwxyz'' ''ABCDEFGHIJKLMNOPQRSTUVWXYZ'') c of
        None \<Rightarrow> c
      | Some u \<Rightarrow> u)"

definition toLowerCase :: "string \<Rightarrow> string" where
  "toLowerCase s = map toLowerChar s"

definition toUpperCase :: "string \<Rightarrow> string" where
  "toUpperCase s = map toUpperChar s"

subsection \<open>Constants of the admin order service\<close>

definition PLACED :: string where "PLACED = ''Placed''"
definition APPROVED :: string where "APPROVED = ''Approved''"
definition PACKED :: string where "PACKED = ''Packed''"
definition SHIPPED :: string where "SHIPPED = ''Shipped''"
definition DELIVERED :: string where "DELIVERED = ''Delivered''"
definition DECLINED :: string where "DECLINED = ''Declined''"
definition CANCELLED :: string where "CANCELLED = ''Cancelled''"
definition REFUNDED :: string where "REFUNDED = ''Refunded''"

text \<open>\<open>Object.values(ORDER_STATUSES)\<close>, in the order of the object literal.\<close>

definition ORDER_STATUSES :: "string list" where
  "ORDER_STATUSES = [PLACED, APPROVED, PACKED, SHIPPED, DELIVERED, DECLINED, CANCELLED, REFUNDED]"

definition PRIORITY_LOW :: string where "PRIORITY_LOW = ''low''"
definition PRIORITY_NORMAL :: string where "PRIORITY_NORMAL = ''normal''"
definition PRIORITY_HIGH :: string where "PRIORITY_HIGH = ''high''"
definition PRIORITY_URGENT :: string where "PRIORITY_URGENT = ''urgent''"

definition ORDER_PRIORITIES :: "string list" where
  "ORDER_PRIORITIES = [PRIORITY_LOW, PRIORITY_NORMAL, PRIORITY_HIGH, PRIORITY_URGENT]"

record carrier_config =
  cc_name :: string
  cc_code :: string
  cc_trackingUrl :: string
  cc_standardDays :: nat
  cc_expressDays :: nat

definition INDIA_POST :: carrier_config where
  "INDIA_POST = \<lparr>cc_name = ''IndiaPost'', cc_code = ''INDIAPOST'',
     cc_trackingUrl = ''https://www.indiapost.gov.in/_layouts/15/dop.portal.tracking/trackconsignment.aspx'',
     cc_standardDays = 7, cc_expressDays = 3\<rparr>"

definition DHL :: carrier_config where
  "DHL = \<lparr>cc_name = ''DHL'', cc_code = ''DHL'',
     cc_trackingUrl = ''https://www.dhl.com/in-en/home/tracking.html'',
     cc_standardDays = 3, cc_expressDays = 1\<rparr>"

definition FEDEX :: carrier_config where
  "FEDEX = \<lparr>cc_name = ''FedEx'', cc_code = ''FEDEX'',
     cc_trackingUrl = ''https://www.fedex.com/en-in/tracking.html'',
     cc_standardDays = 3, cc_expressDays = 1\<rparr>"

definition BLUEDART :: carrier_config where
  "BLUEDART = \<lparr>cc_name = ''BlueDart'', cc_code = ''BLUEDART'',
     cc_trackingUrl = ''https://www.bluedart.com/web/guest/trackdartresult'',
     cc_standardDays = 2, cc_expressDays = 1\<rparr>"

text \<open>\<open>Object.values(SHIPPING_CARRIERS)\<close>.\<close>

definition SHIPPING_CARRIERS :: "carrier_config list" where
  "SHIPPING_CARRIERS = [INDIA_POST, DHL, FEDEX, BLUEDART]"

subsection \<open>Documents\<close>

datatype meta_value = MStr string | MBool bool | MTime timestamp

type_synonym metadata = "(string \<times> meta_value) list"

text \<open>Object spread \<open>{...base, ...extra}\<close>: a key of \<open>extra\<close> overwrites in place or is appended.\<close>

definition spread :: "metadata \<Rightarrow> metadata \<Rightarrow> metadata" where
  "spread base extra = fold (\<lambda>(k, v) m. AList.update k v m) extra base"

record status_entry =
  se_status :: string
  se_timestamp :: timestamp
  se_note :: string
  se_updatedBy :: "string option"
  se_previousStatus :: "string option"
  se_adminNotes :: "string option"
  se_metadata :: "metadata option"

record order_item =
  item_productId :: string
  item_name :: string
  item_price :: number
  item_quantity :: number
  item_image :: string

record tracking =
  tr_code :: "string option"
  tr_carrier :: "string option"
  tr_carrierCode :: "string option"
  tr_url :: "string option"
  tr_estimatedDelivery :: "timestamp option"
  tr_shippedDate :: "timestamp option"
  tr_service :: "string option"
  tr_weight :: "number option"
  tr_dimensions :: "string option"
  tr_cost :: "number option"
  tr_notes :: "string option"
  tr_updatedBy :: "string option"
  tr_updatedAt :: "timestamp option"

definition emptyTracking :: tracking where
  "emptyTracking = \<lparr>tr_code = None, tr_carrier = None, tr_carrierCode = None, tr_url = None,
     tr_estimatedDelivery = None, tr_shippedDate = None, tr_service = None, tr_weight = None,
     tr_dimensions = None, tr_cost = None, tr_notes = None, tr_updatedBy = None,
     tr_updatedAt = None\<rparr>"

text \<open>\<open>{...a}\<close> of a tracking descriptor that may be absent, and \<open>{...a, ...b}\<close>.\<close>

definition spreadTracking :: "tracking option \<Rightarrow> tracking" where
  "spreadTracking t = (case t of None \<Rightarrow> emptyTracking | Some a \<Rightarrow> a)"

definition orElse :: "'a option \<Rightarrow> 'a option \<Rightarrow> 'a option" where
  "orElse b a = (case b of None \<Rightarrow> a | Some v \<Rightarrow> Some v)"

definition mergeTracking :: "tracking \<Rightarrow> tracking \<Rightarrow> tracking" where
  "mergeTracking a b =
     \<lparr>tr_code = orElse (tr_code b) (tr_code a),
      tr_carrier = orElse (tr_carrier b) (tr_carrier a),
      tr_carrierCode = orElse (tr_carrierCode b) (tr_carrierCode a),
      tr_url = orElse (tr_url b) (tr_url a),
      tr_estimatedDelivery = orElse (tr_estimatedDelivery b) (tr_estimatedDelivery a),
      tr_shippedDate = orElse (tr_shippedDate b) (tr_shippedDate a),
      tr_service = orElse (tr_service b) (tr_service a),
      tr_weight = orElse (tr_weight b) (tr_weight a),
      tr_dimensions = orElse (tr_dimensions b) (tr_dimensions a),
      tr_cost = orElse (tr_cost b) (tr_cost a),
      tr_notes = orElse (tr_notes b) (tr_notes a),
      tr_updatedBy = orElse (tr_updatedBy b) (tr_updatedBy a),
      tr_updatedAt = orElse (tr_updatedAt b) (tr_updatedAt a)\<rparr>"

record address =
  addr_name :: string
  addr_street :: string
  addr_city :: string
  addr_state :: string
  addr_zip :: string
  addr_country :: string

text \<open>
  An order document. The first block is what checkout writes; \<open>o_total\<close>, \<open>o_importDuty\<close>,
  \<open>o_shippingCountry\<close> (\<open>shipping.address.country\<close>), \<open>o_shippingCost\<close> (\<open>shipping.cost\<close>),
  \<open>o_tracking\<close>, \<open>o_priority\<close>, \<open>o_tags\<close>, \<open>o_adminNotes\<close> and \<open>o_globalOrderId\<close> are fields the
  admin service and the account page read; the last block is the fields the admin service
  writes on a status change. \<open>o_items\<close> and \<open>o_status\<close> are always there, as in every order
  that checkout writes.
\<close>

record order =
  o_userId :: "string option"
  o_userEmail :: "string option"
  o_userName :: "string option"
  o_userPhone :: "string option"
  o_orderDate :: "timestamp option"
  o_createdAt :: "timestamp option"
  o_items :: "order_item list"
  o_paymentMethod :: "string option"
  o_subtotal :: "number option"
  o_tax :: "number option"
  o_discount :: "number option"
  o_totalAmount :: "number option"
  o_status :: string
  o_statusHistory :: "status_entry list option"
  o_shippingAddress :: "address option"
  o_total :: "number option"
  o_importDuty :: "number option"
  o_shippingCountry :: "string option"
  o_shippingCost :: "number option"
  o_tracking :: "tracking option"
  o_priority :: "string option"
  o_tags :: "string list option"
  o_adminNotes :: "string option"
  o_globalOrderId :: "string option"
  o_updatedAt :: "timestamp option"
  o_lastUpdatedBy :: "string option"
  o_approvedAt :: "timestamp option"
  o_approvedBy :: "string option"
  o_packedAt :: "timestamp option"
  o_packedBy :: "string option"
  o_packingNotes :: "string option"
  o_shippedAt :: "timestamp option"
  o_shippedBy :: "string option"
  o_deliveredAt :: "timestamp option"
  o_deliveryConfirmation :: "string option"
  o_declinedAt :: "timestamp option"
  o_declinedBy :: "string option"
  o_declineReason :: "string option"
  o_cancelledAt :: "timestamp option"
  o_cancelledBy :: "string option"
  o_cancellationReason :: "string option"
  o_refundedAt :: "timestamp option"
  o_refundedBy :: "string option"
  o_refundAmount :: "number option"
  o_refundReason :: "string option"
  o_refundMethod :: "string option"

text \<open>\<open>currentOrder.statusHistory || []\<close>.\<close>

definition historyOrEmpty :: "order \<Rightarrow> status_entry list" where
  "historyOrEmpty d = (case o_statusHistory d of None \<Rightarrow> [] | Some h \<Rightarrow> h)"

record product =
  p_name :: string
  p_price :: number
  p_image :: string
  p_stock :: "number option"
  p_lastRestored :: "timestamp option"

text \<open>
  The record store: the \<open>orders\<close> and \<open>products\<close> collections by document id, and the
  denormalised copies \<open>users/{uid}/orders/{docId}\<close> as a list keyed by \<open>(uid, docId)\<close>, since
  they are found by a query.
\<close>

record store =
  orders :: "string \<rightharpoonup> order"
  products :: "string \<rightharpoonup> product"
  userOrders :: "((string \<times> string) \<times> order) list"

subsection \<open>Errors\<close>

text \<open>
  The errors the operations throw and catch, by message:
  \<open>InvalidOrderStatus\<close> "Invalid order status: ...";
  \<open>OrderNotFound\<close> "Order ... not found";
  \<open>TrackingNumberRequired\<close> "Tracking number is required for shipping updates";
  \<open>CarrierRequired\<close> "Shipping carrier is required for shipping updates";
  \<open>NotPackedOrShipped\<close> "Order must be in Packed or Shipped status ... Current status: ...";
  \<open>NoOrderIds\<close> "No order IDs provided for bulk operation";
  \<open>BulkLimitExceeded\<close> "Bulk operations are limited to 50 orders at a time ...".
  Two errors come from the language and from the store and are caught in the same way:
  \<open>IncludesNotAFunction\<close>, the TypeError "... .includes is not a function";
  \<open>UnsupportedFieldValue\<close>, the store's "Unsupported field value: undefined (found in field
  ...)", with the name of the field.
\<close>

datatype error =
    InvalidOrderStatus string
  | OrderNotFound string
  | TrackingNumberRequired
  | CarrierRequired
  | NotPackedOrShipped string
  | NoOrderIds
  | BulkLimitExceeded
  | IncludesNotAFunction
  | UnsupportedFieldValue string

subsection \<open>AdminOrderService.restoreInventory\<close>

text \<open>
  The loop reads each line item's product from the store and queues one write
  \<open>(productRef, restoredStock)\<close> in the batch when the product exists; nothing is queued
  otherwise. The reads see the store as it is before the commit.
\<close>

fun restoreInventory_batch :: "(string \<rightharpoonup> product) \<Rightarrow> order_item list \<Rightarrow> (string \<times> number) list" where
  "restoreInventory_batch ps [] = []"
| "restoreInventory_batch ps (item # rest) =
     (case ps (item_productId item) of
        None \<Rightarrow> restoreInventory_batch ps rest
      | Some p \<Rightarrow>
          (let currentStock = orNum (p_stock p) (num 0);
               restoredStock = dadd currentStock (item_quantity item)
           in (item_productId item, restoredStock) # restoreInventory_batch ps rest))"

text \<open>\<open>batch.commit()\<close>: the queued updates are applied in the order they were queued.\<close>

definition applyStockWrite :: "timestamp \<Rightarrow> string \<times> number \<Rightarrow> (string \<rightharpoonup> product) \<Rightarrow> (string \<rightharpoonup> product)" where
  "applyStockWrite now w ps =
     (case ps (fst w) of
        None \<Rightarrow> ps
      | Some p \<Rightarrow> ps(fst w \<mapsto> p\<lparr>p_stock := Some (snd w), p_lastRestored := Some now\<rparr>))"

definition commitStockBatch :: "timestamp \<Rightarrow> (string \<times> number) list \<Rightarrow> (string \<rightharpoonup> product) \<Rightarrow> (string \<rightharpoonup> product)" where
  "commitStockBatch now batch ps = fold (applyStockWrite now) batch ps"

definition restoreInventory :: "store \<Rightarrow> timestamp \<Rightarrow> order_item list \<Rightarrow> store" where
  "restoreInventory st now orderItems =
     st\<lparr>products := commitStockBatch now (restoreInventory_batch (products st) orderItems) (products st)\<rparr>"

subsection \<open>AdminOrderService.updateOrderStatus\<close>

record update_info =
  ui_note :: "string option"
  ui_adminNotes :: "string option"
  ui_reason :: "string option"
  ui_ipAddress :: "string option"
  ui_userAgent :: "string option"
  ui_metadata :: metadata
  ui_priority :: "string option"
  ui_packingNotes :: "string option"
  ui_tracking :: "tracking option"
  ui_deliveryConfirmation :: "string option"
  ui_refundAmount :: "number option"
  ui_refundMethod :: "string option"

text \<open>The default \<open>updateInfo = {}\<close>.\<close>

definition noUpdateInfo :: update_info where
  "noUpdateInfo = \<lparr>ui_note = None, ui_adminNotes = None, ui_reason = None, ui_ipAddress = None,
     ui_userAgent = None, ui_metadata = [], ui_priority = None, ui_packingNotes = None,
     ui_tracking = None, ui_deliveryConfirmation = None, ui_refundAmount = None,
     ui_refundMethod = None\<rparr>"

text \<open>The local table \<open>validTransitions\<close>, keyed by the current status.\<close>

definition validTransitions :: "(string \<times> string list) list" where
  "validTransitions =
     [(PLACED, [APPROVED, DECLINED, CANCELLED]),
      (APPROVED, [PACKED, CANCELLED]),
      (PACKED, [SHIPPED, CANCELLED]),
      (SHIPPED, [DELIVERED]),
      (DELIVERED, [REFUNDED]),
      (DECLINED, []),
      (CANCELLED, [REFUNDED]),
      (REFUNDED, [])]"

text \<open>
  The names every plain object inherits from \<open>Object.prototype\<close>: looked up in the table,
  such a name gives a value that is there but is no array.
\<close>

definition objectPrototypeMembers :: "string list" where
  "objectPrototypeMembers =
     [''constructor'', ''__defineGetter__'', ''__defineSetter__'', ''hasOwnProperty'',
      ''__lookupGetter__'', ''__lookupSetter__'', ''isPrototypeOf'', ''propertyIsEnumerable'',
      ''toString'', ''valueOf'', ''__proto__'', ''toLocaleString'']"

text \<open>
  The check \<open>validTransitions[currentStatus] && !validTransitions[currentStatus].includes(newStatus)\<close>:
  whether the warning "Potentially invalid status transition" is logged. For a current
  status that names a member of \<open>Object.prototype\<close> the first operand is truthy and the call
  of \<open>includes\<close> throws.
\<close>

definition transitionWarning :: "string \<Rightarrow> string \<Rightarrow> error + bool" where
  "transitionWarning currentStatus newStatus =
     (case map_of validTransitions currentStatus of
        Some allowed \<Rightarrow> Inr (newStatus \<notin> set allowed)
      | None \<Rightarrow>
          if currentStatus \<in> set objectPrototypeMembers then Inl IncludesNotAFunction
          else Inr False)"

definition statusHistoryEntry :: "order \<Rightarrow> string \<Rightarrow> update_info \<Rightarrow> string \<Rightarrow> timestamp \<Rightarrow> status_entry" where
  "statusHistoryEntry currentOrder newStatus updateInfo adminUserId now =
     \<lparr>se_status = newStatus,
      se_timestamp = now,
      se_note = orStr (ui_note updateInfo) (''Order '' @ toLowerCase newStatus @ '' by admin''),
      se_updatedBy = Some adminUserId,
      se_previousStatus = Some (o_status currentOrder),
      se_adminNotes = Some (orStr (ui_adminNotes updateInfo) ''''),
      se_metadata = Some (spread
        [(''updateReason'', MStr (orStr (ui_reason updateInfo) ''Status change'')),
         (''ipAddress'', MStr (orStr (ui_ipAddress updateInfo) ''unknown'')),
         (''userAgent'', MStr (orStr (ui_userAgent updateInfo) ''admin-panel''))]
        (ui_metadata updateInfo))\<rparr>"

text \<open>\<open>currentOrder.tracking?.carrier\<close>.\<close>

definition trackingCarrier :: "order \<Rightarrow> string option" where
  "trackingCarrier d = (case o_tracking d of None \<Rightarrow> None | Some t \<Rightarrow> tr_carrier t)"

text \<open>
  The object \<open>updateData\<close>, as the partial update it stands for: applied to a document \<open>d\<close> it
  sets the listed fields and leaves the others. The basic fields come first, then the
  \<open>switch\<close> on the new status. It is computed from \<open>currentOrder\<close> and applied both to the
  order itself and to its denormalised copies.

  One field can come out \<open>undefined\<close>: \<open>refundAmount\<close>, when \<open>updateInfo.refundAmount\<close> is falsy
  and the order has no \<open>total\<close>. The store does not write \<open>undefined\<close>: it refuses the whole
  update when the transaction takes it (the SDK's setting \<open>ignoreUndefinedProperties\<close> is
  off unless asked for, and the code never asks for it). Such an \<open>updateData\<close> is the
  error it meets.
\<close>

definition updateData :: "order \<Rightarrow> string \<Rightarrow> update_info \<Rightarrow> string \<Rightarrow> timestamp \<Rightarrow> error + (order \<Rightarrow> order)" where
  "updateData currentOrder newStatus updateInfo adminUserId now =
     (let base = (\<lambda>d. d\<lparr>o_status := newStatus,
                          o_updatedAt := Some now,
                          o_lastUpdatedBy := Some adminUserId,
                          o_statusHistory := Some (historyOrEmpty currentOrder @
                            [statusHistoryEntry currentOrder newStatus updateInfo adminUserId now])\<rparr>)
      in if newStatus = APPROVED then
           Inr (\<lambda>d. (base d)\<lparr>o_approvedAt := Some now,
                               o_approvedBy := Some adminUserId,
                               o_priority := Some (orStr (ui_priority updateInfo)
                                                    (orStr (o_priority currentOrder) PRIORITY_NORMAL))\<rparr>)
         else if newStatus = PACKED then
           (let packed = (\<lambda>d. (base d)\<lparr>o_packedAt := Some now,
                                          o_packedBy := Some adminUserId,
                                          o_packingNotes := Some (orStr (ui_packingNotes updateInfo) '''')\<rparr>)
            in if \<not> truthyStr (trackingCarrier currentOrder) then
                 (let isInternational = (o_shippingCountry currentOrder \<noteq> Some ''India'')
                  in Inr (\<lambda>d. (packed d)\<lparr>o_tracking := Some ((spreadTracking (o_tracking currentOrder))
                       \<lparr>tr_carrier := Some (if isInternational then cc_name DHL else cc_name INDIA_POST)\<rparr>)\<rparr>))
               else Inr packed)
         else if newStatus = SHIPPED then
           (let shipped = (\<lambda>d. (base d)\<lparr>o_shippedAt := Some now, o_shippedBy := Some adminUserId\<rparr>)
            in case ui_tracking updateInfo of
                 None \<Rightarrow> Inr shipped
               | Some t \<Rightarrow> Inr (\<lambda>d. (shipped d)\<lparr>o_tracking := Some
                   ((mergeTracking (spreadTracking (o_tracking currentOrder)) t)
                      \<lparr>tr_shippedDate := Some now\<rparr>)\<rparr>))
         else if newStatus = DELIVERED then
           Inr (\<lambda>d. (base d)\<lparr>o_deliveredAt := Some now,
                               o_deliveryConfirmation := Some (orStr (ui_deliveryConfirmation updateInfo)
                                                                ''Admin marked as delivered'')\<rparr>)
         else if newStatus = DECLINED then
           Inr (\<lambda>d. (base d)\<lparr>o_declinedAt := Some now,
                               o_declinedBy := Some adminUserId,
                               o_declineReason := Some (orStr (ui_reason updateInfo)
                                                         ''Order declined by admin'')\<rparr>)
         else if newStatus = CANCELLED then
           Inr (\<lambda>d. (base d)\<lparr>o_cancelledAt := Some now,
                               o_cancelledBy := Some adminUserId,
                               o_cancellationReason := Some (orStr (ui_reason updateInfo) ''Order cancelled'')\<rparr>)
         else if newStatus = REFUNDED then
           (case orNumOpt (ui_refundAmount updateInfo) (o_total currentOrder) of
              None \<Rightarrow> Inl (UnsupportedFieldValue ''refundAmount'')
            | Some refundAmount \<Rightarrow>
                Inr (\<lambda>d. (base d)\<lparr>o_refundedAt := Some now,
                                    o_refundedBy := Some adminUserId,
                                    o_refundAmount := Some refundAmount,
                                    o_refundReason := Some (orStr (ui_reason updateInfo) ''Refund processed''),
                                    o_refundMethod := Some (orStr (ui_refundMethod updateInfo)
                                                             ''original_payment_method'')\<rparr>))
         else Inr base)"

text \<open>
  The query \<open>users/{uid}/orders where globalOrderId == orderId\<close> and the update of every
  document it returns.
\<close>

definition syncUserOrders :: "string \<Rightarrow> string \<Rightarrow> (order \<Rightarrow> order) \<Rightarrow> ((string \<times> string) \<times> order) list \<Rightarrow> ((string \<times> string) \<times> order) list" where
  "syncUserOrders uid orderId upd copies =
     map (\<lambda>(key, d). if fst key = uid \<and> o_globalOrderId d = Some orderId then (key, upd d) else (key, d))
       copies"

record status_result =
  sr_orderId :: string
  sr_previousStatus :: string
  sr_newStatus :: string
  sr_timestamp :: timestamp

text \<open>
  The operation returns whether the transition warning was logged, the result
  (\<open>{success: false, error}\<close> as \<open>Inl\<close>), and the store afterwards. Inventory is restored
  (its own batch) before the transaction that updates the order and its copies; when the
  transaction refuses \<open>updateData\<close>, nothing of the transaction is written.
\<close>

definition updateOrderStatus :: "store \<Rightarrow> string \<Rightarrow> string \<Rightarrow> update_info \<Rightarrow> string \<Rightarrow> timestamp \<Rightarrow> bool \<times> (error + status_result) \<times> store" where
  "updateOrderStatus st orderId newStatus updateInfo adminUserId now =
     (if newStatus \<notin> set ORDER_STATUSES then (False, Inl (InvalidOrderStatus newStatus), st)
      else case orders st orderId of
        None \<Rightarrow> (False, Inl (OrderNotFound orderId), st)
      | Some currentOrder \<Rightarrow>
          (let currentStatus = o_status currentOrder
           in case transitionWarning currentStatus newStatus of
                Inl e \<Rightarrow> (False, Inl e, st)
              | Inr warned \<Rightarrow>
                  (let st1 = (if newStatus = DECLINED \<or> newStatus = CANCELLED
                              then restoreInventory st now (o_items currentOrder) else st)
                   in case updateData currentOrder newStatus updateInfo adminUserId now of
                        Inl e \<Rightarrow> (warned, Inl e, st1)
                      | Inr upd \<Rightarrow>
                          (let st2 = st1\<lparr>orders := (orders st1)(orderId \<mapsto> upd currentOrder)\<rparr>;
                               st3 = (case o_userId currentOrder of
                                        None \<Rightarrow> st2
                                      | Some uid \<Rightarrow>
                                          if uid = [] then st2
                                          else st2\<lparr>userOrders :=
                                                 syncUserOrders uid orderId upd (userOrders st2)\<rparr>)
                           in (warned,
                               Inr \<lparr>sr_orderId = orderId, sr_previousStatus = currentStatus,
                                    sr_newStatus = newStatus, sr_timestamp = now\<rparr>,
                               st3)))))"

subsection \<open>AdminOrderService.updateShippingInfo\<close>

record shipping_info =
  si_trackingNumber :: "string option"
  si_carrier :: "string option"
  si_service :: "string option"
  si_weight :: "number option"
  si_dimensions :: "string option"
  si_shippingCost :: "number option"
  si_notes :: "string option"

text \<open>The carrier configuration found by name or by code, ignoring case.\<close>

definition carrierConfig :: "string \<Rightarrow> carrier_config option" where
  "carrierConfig carrier =
     List.find (\<lambda>c. toLowerCase (cc_name c) = toLowerCase carrier \<or>
                     toLowerCase (cc_code c) = toLowerCase carrier) SHIPPING_CARRIERS"

text \<open>\<open>carrierConfig?.estimatedDays?.standard || 7\<close>.\<close>

definition deliveryDays :: "string \<Rightarrow> nat" where
  "deliveryDays carrier =
     (case carrierConfig carrier of
        None \<Rightarrow> 7
      | Some c \<Rightarrow> if cc_standardDays c = 0 then 7 else cc_standardDays c)"

text \<open>\<open>setDate(getDate() + deliveryDays)\<close>, a calendar day taken as 24 hours.\<close>

definition estimatedDeliveryDate :: "timestamp \<Rightarrow> string \<Rightarrow> timestamp" where
  "estimatedDeliveryDate now carrier = now + deliveryDays carrier * 86400000"

definition trackingData :: "order \<Rightarrow> string \<Rightarrow> string \<Rightarrow> shipping_info \<Rightarrow> string \<Rightarrow> timestamp \<Rightarrow> tracking" where
  "trackingData currentOrder trackingNumber carrier shippingInfo adminUserId now =
     \<lparr>tr_code = Some trackingNumber,
      tr_carrier = Some (orStr (map_option cc_name (carrierConfig carrier)) carrier),
      tr_carrierCode = Some (orStr (map_option cc_code (carrierConfig carrier)) (toUpperCase carrier)),
      tr_url = (case carrierConfig carrier of
                  None \<Rightarrow> None
                | Some c \<Rightarrow> if cc_trackingUrl c = [] then None else Some (cc_trackingUrl c)),
      tr_estimatedDelivery = Some (estimatedDeliveryDate now carrier),
      tr_shippedDate = Some now,
      tr_service = Some (orStr (si_service shippingInfo) ''standard''),
      tr_weight = (if truthyNum (si_weight shippingInfo) then si_weight shippingInfo else None),
      tr_dimensions = (if truthyStr (si_dimensions shippingInfo)
                       then si_dimensions shippingInfo else None),
      tr_cost = Some (orNum (si_shippingCost shippingInfo) (orNum (o_shippingCost currentOrder) (num 0))),
      tr_notes = Some (orStr (si_notes shippingInfo) ''''),
      tr_updatedBy = Some adminUserId,
      tr_updatedAt = Some now\<rparr>"

text \<open>The history entry \<open>statusUpdate\<close> of a shipping update.\<close>

definition shippingStatusUpdate :: "string \<Rightarrow> string \<Rightarrow> string \<Rightarrow> timestamp \<Rightarrow> status_entry" where
  "shippingStatusUpdate trackingNumber carrier adminUserId now =
     (let carrierName = orStr (map_option cc_name (carrierConfig carrier)) carrier
      in \<lparr>se_status = SHIPPED,
          se_timestamp = now,
          se_note = ''Order shipped via '' @ carrierName @ '' with tracking number '' @ trackingNumber,
          se_updatedBy = Some adminUserId,
          se_previousStatus = None,
          se_adminNotes = None,
          se_metadata = Some
            [(''trackingNumber'', MStr trackingNumber),
             (''carrier'', MStr carrierName),
             (''estimatedDelivery'', MTime (estimatedDeliveryDate now carrier))]\<rparr>)"

record shipping_result =
  shr_orderId :: string
  shr_trackingNumber :: string
  shr_carrier :: string
  shr_estimatedDelivery :: timestamp
  shr_trackingUrl :: "string option"

definition updateShippingInfo :: "store \<Rightarrow> string \<Rightarrow> shipping_info \<Rightarrow> string \<Rightarrow> timestamp \<Rightarrow> (error + shipping_result) \<times> store" where
  "updateShippingInfo st orderId shippingInfo adminUserId now =
     (case si_trackingNumber shippingInfo of
        None \<Rightarrow> (Inl TrackingNumberRequired, st)
      | Some trackingNumber \<Rightarrow>
          if trackingNumber = [] then (Inl TrackingNumberRequired, st)
          else case si_carrier shippingInfo of
            None \<Rightarrow> (Inl CarrierRequired, st)
          | Some carrier \<Rightarrow>
              if carrier = [] then (Inl CarrierRequired, st)
              else case orders st orderId of
                None \<Rightarrow> (Inl (OrderNotFound orderId), st)
              | Some currentOrder \<Rightarrow>
                  if o_status currentOrder \<noteq> PACKED \<and> o_status currentOrder \<noteq> SHIPPED
                  then (Inl (NotPackedOrShipped (o_status currentOrder)), st)
                  else
                    (let td = trackingData currentOrder trackingNumber carrier shippingInfo adminUserId now;
                         statusUpdate = shippingStatusUpdate trackingNumber carrier adminUserId now;
                         updated = currentOrder\<lparr>o_status := SHIPPED,
                                     o_tracking := Some td,
                                     o_shippedAt := Some now,
                                     o_shippedBy := Some adminUserId,
                                     o_updatedAt := Some now,
                                     o_statusHistory := Some (historyOrEmpty currentOrder @ [statusUpdate])\<rparr>
                     in (Inr \<lparr>shr_orderId = orderId,
                              shr_trackingNumber = trackingNumber,
                              shr_carrier = orStr (map_option cc_name (carrierConfig carrier)) carrier,
                              shr_estimatedDelivery = estimatedDeliveryDate now carrier,
                              shr_trackingUrl = tr_url td\<rparr>,
                         st\<lparr>orders := (orders st)(orderId \<mapsto> updated)\<rparr>)))"

subsection \<open>AdminOrderService.bulkOperation\<close>

record operation_data =
  od_status :: "string option"
  od_note :: "string option"
  od_priority :: "string option"
  od_tag :: string

text \<open>
  The per-item failures, by message: "Order not found", "Invalid status: ...",
  "Invalid priority: ...", "Unknown operation: ...". The offending value is kept as it was
  given (\<open>None\<close> prints as \<open>undefined\<close>).
\<close>

datatype item_error =
    ItemOrderNotFound
  | ItemInvalidStatus "string option"
  | ItemInvalidPriority "string option"
  | ItemUnknownOperation string

text \<open>\<open>{orderId, success: true, operation}\<close> and \<open>{orderId, success: false, error}\<close>.\<close>

datatype item_result =
    ItemSucceeded string string
  | ItemFailed string item_error

fun item_success :: "item_result \<Rightarrow> bool" where
  "item_success (ItemSucceeded orderId operation) = True"
| "item_success (ItemFailed orderId e) = False"

definition bulkStatusEntry :: "string \<Rightarrow> operation_data \<Rightarrow> string \<Rightarrow> timestamp \<Rightarrow> status_entry" where
  "bulkStatusEntry s operationData adminUserId now =
     \<lparr>se_status = s,
      se_timestamp = now,
      se_note = orStr (od_note operationData) (''Bulk status update to '' @ s),
      se_updatedBy = Some adminUserId,
      se_previousStatus = None,
      se_adminNotes = None,
      se_metadata = Some [(''bulkOperation'', MBool True)]\<rparr>"

text \<open>
  One turn of the loop for an order that exists: the results it pushes and the updates it
  queues in the batch (an update stands for its \<open>updateData\<close>, as above). On \<open>add_tag\<close> with a
  tag the order already has, \<open>updateData\<close> stays empty: nothing is queued and no result is
  pushed.
\<close>

definition bulkUpdateFor :: "order \<Rightarrow> string \<Rightarrow> string \<Rightarrow> operation_data \<Rightarrow> string \<Rightarrow> timestamp \<Rightarrow> item_result list \<times> (string \<times> (order \<Rightarrow> order)) list" where
  "bulkUpdateFor currentOrder operation orderId operationData adminUserId now =
     (if operation = ''update_status'' then
        (case od_status operationData of
           None \<Rightarrow> ([ItemFailed orderId (ItemInvalidStatus None)], [])
         | Some s \<Rightarrow>
             if s \<notin> set ORDER_STATUSES
             then ([ItemFailed orderId (ItemInvalidStatus (Some s))], [])
             else ([ItemSucceeded orderId operation],
                   [(orderId, \<lambda>d. d\<lparr>o_status := s,
                                     o_updatedAt := Some now,
                                     o_lastUpdatedBy := Some adminUserId,
                                     o_statusHistory := Some (historyOrEmpty currentOrder @
                                       [bulkStatusEntry s operationData adminUserId now])\<rparr>)]))
      else if operation = ''update_priority'' then
        (case od_priority operationData of
           None \<Rightarrow> ([ItemFailed orderId (ItemInvalidPriority None)], [])
         | Some p \<Rightarrow>
             if p \<notin> set ORDER_PRIORITIES
             then ([ItemFailed orderId (ItemInvalidPriority (Some p))], [])
             else ([ItemSucceeded orderId operation],
                   [(orderId, \<lambda>d. d\<lparr>o_priority := Some p,
                                     o_updatedAt := Some now,
                                     o_lastUpdatedBy := Some adminUserId\<rparr>)]))
      else if operation = ''add_tag'' then
        (let currentTags = (case o_tags currentOrder of None \<Rightarrow> [] | Some ts \<Rightarrow> ts)
         in if od_tag operationData \<notin> set currentTags
            then ([ItemSucceeded orderId operation],
                  [(orderId, \<lambda>d. d\<lparr>o_tags := Some (currentTags @ [od_tag operationData]),
                                    o_updatedAt := Some now,
                                    o_lastUpdatedBy := Some adminUserId\<rparr>)])
            else ([], []))
      else if operation = ''remove_tag'' then
        (let tagsToKeep = filter (\<lambda>tag. tag \<noteq> od_tag operationData)
                            (case o_tags currentOrder of None \<Rightarrow> [] | Some ts \<Rightarrow> ts)
         in ([ItemSucceeded orderId operation],
             [(orderId, \<lambda>d. d\<lparr>o_tags := Some tagsToKeep,
                               o_updatedAt := Some now,
                               o_lastUpdatedBy := Some adminUserId\<rparr>)]))
      else if operation = ''add_admin_note'' then
        ([ItemSucceeded orderId operation],
         [(orderId, \<lambda>d. d\<lparr>o_adminNotes := Some (orStr (o_adminNotes currentOrder) '''' @ [CHR 0x0A] @
                                              (case od_note operationData of
                                                 None \<Rightarrow> ''undefined'' | Some n \<Rightarrow> n)),
                           o_updatedAt := Some now,
                           o_lastUpdatedBy := Some adminUserId\<rparr>)])
      else ([ItemFailed orderId (ItemUnknownOperation operation)], []))"

text \<open>
  The \<open>for\<close> loop over \<open>orderIds\<close>, with its two accumulators \<open>results\<close> and \<open>batch\<close>. Every
  order is read from the store as it is before the commit.
\<close>

fun bulkLoop :: "store \<Rightarrow> string \<Rightarrow> operation_data \<Rightarrow> string \<Rightarrow> timestamp \<Rightarrow> string list \<Rightarrow> item_result list \<Rightarrow> (string \<times> (order \<Rightarrow> order)) list \<Rightarrow> item_result list \<times> (string \<times> (order \<Rightarrow> order)) list" where
  "bulkLoop st operation operationData adminUserId now [] results batch = (results, batch)"
| "bulkLoop st operation operationData adminUserId now (orderId # rest) results batch =
     (case orders st orderId of
        None \<Rightarrow>
          bulkLoop st operation operationData adminUserId now rest
            (results @ [ItemFailed orderId ItemOrderNotFound]) batch
      | Some currentOrder \<Rightarrow>
          (let (pushed, queued) =
                 bulkUpdateFor currentOrder operation orderId operationData adminUserId now
           in bulkLoop st operation operationData adminUserId now rest
                (results @ pushed) (batch @ queued)))"

definition commitOrderBatch :: "(string \<times> (order \<Rightarrow> order)) list \<Rightarrow> (string \<rightharpoonup> order) \<Rightarrow> (string \<rightharpoonup> order)" where
  "commitOrderBatch batch os =
     fold (\<lambda>(orderId, upd) m. case m orderId of None \<Rightarrow> m | Some d \<Rightarrow> m(orderId \<mapsto> upd d)) batch os"

record bulk_result =
  br_operation :: string
  br_totalOrders :: nat
  br_successCount :: nat
  br_failureCount :: nat
  br_results :: "item_result list"

definition bulkOperation :: "store \<Rightarrow> string \<Rightarrow> string list \<Rightarrow> operation_data \<Rightarrow> string \<Rightarrow> timestamp \<Rightarrow> (error + bulk_result) \<times> store" where
  "bulkOperation st operation orderIds operationData adminUserId now =
     (if length orderIds = 0 then (Inl NoOrderIds, st)
      else if length orderIds > 50 then (Inl BulkLimitExceeded, st)
      else
        (let (results, batch) = bulkLoop st operation operationData adminUserId now orderIds [] [];
             st' = st\<lparr>orders := commitOrderBatch batch (orders st)\<rparr>;
             successCount = length (filter item_success results);
             failureCount = length (filter (\<lambda>r. \<not> item_success r) results)
         in (Inr \<lparr>br_operation = operation, br_totalOrders = length orderIds,
                  br_successCount = successCount, br_failureCount = failureCount,
                  br_results = results\<rparr>,
             st')))"

subsection \<open>The admin Orders page: its own updateOrderStatus handler\<close>

text \<open>
  The handler of the page's Approve, Decline, Pack, ... buttons. It does not call the
  service: it reads the order, asks for confirmation before \<open>Declined\<close> and \<open>Cancelled\<close>
  (the answer of \<open>window.confirm\<close> is the parameter \<open>confirmed\<close>), and issues one
  \<open>updateDoc\<close>. Of \<open>additionalInfo\<close> only \<open>note\<close> is read. The page's local list of orders,
  which mirrors the write, is not part of the store.
\<close>

datatype handler_outcome = StatusUpdated | NotConfirmed | UpdateFailed error

definition pageStatusUpdate :: "string \<Rightarrow> update_info \<Rightarrow> timestamp \<Rightarrow> status_entry" where
  "pageStatusUpdate newStatus additionalInfo now =
     \<lparr>se_status = newStatus,
      se_timestamp = now,
      se_note = orStr (ui_note additionalInfo) (''Order '' @ toLowerCase newStatus @ '' by admin''),
      se_updatedBy = None,
      se_previousStatus = None,
      se_adminNotes = None,
      se_metadata = None\<rparr>"

definition Orders_updateOrderStatus :: "store \<Rightarrow> string \<Rightarrow> string \<Rightarrow> update_info \<Rightarrow> bool \<Rightarrow> timestamp \<Rightarrow> handler_outcome \<times> store" where
  "Orders_updateOrderStatus st orderId newStatus additionalInfo confirmed now =
     (case orders st orderId of
        None \<Rightarrow> (UpdateFailed (OrderNotFound orderId), st)
      | Some orderData \<Rightarrow>
          if newStatus \<in> set [''Declined'', ''Cancelled''] \<and> \<not> confirmed then (NotConfirmed, st)
          else
            (let statusUpdate = pageStatusUpdate newStatus additionalInfo now
             in (StatusUpdated,
                 st\<lparr>orders := (orders st)(orderId \<mapsto>
                      orderData\<lparr>o_status := newStatus,
                                o_statusHistory := Some (historyOrEmpty orderData @ [statusUpdate])\<rparr>)\<rparr>)))"

subsection \<open>Checkout: Cart.completeOrder\<close>

record cart_item =
  ci_productId :: string
  ci_quantity :: number

record user =
  u_uid :: string
  u_email :: "string option"
  u_displayName :: "string option"

text \<open>The state of the checkout form: customer name, phone and address.\<close>

record checkout_form =
  cf_customerName :: string
  cf_selectedCountryCode :: string
  cf_phoneNumber :: string
  cf_houseNo :: string
  cf_line1 :: string
  cf_line2 :: string
  cf_city :: string
  cf_state :: string
  cf_country :: string
  cf_pin :: string

definition getFullPhoneNumber :: "checkout_form \<Rightarrow> string" where
  "getFullPhoneNumber f = (if cf_phoneNumber f = [] then '''' else cf_selectedCountryCode f @ cf_phoneNumber f)"

text \<open>
  \<open>cartDetails\<close>: every cart item whose product is among the fetched \<open>products\<close>, with that
  product (\<open>products.find\<close>: the first with the id).
\<close>

definition cartDetails :: "cart_item list \<Rightarrow> (string \<times> product) list \<Rightarrow> (cart_item \<times> product) list" where
  "cartDetails cartItems ps =
     List.map_filter (\<lambda>item. map_option (\<lambda>p. (item, p)) (map_of ps (ci_productId item))) cartItems"

definition cartSubtotal :: "(cart_item \<times> product) list \<Rightarrow> number" where
  "cartSubtotal details =
     fold (\<lambda>(item, p) acc. dadd acc (dmul (p_price p) (ci_quantity item))) details (num 0)"

definition orderData :: "user \<Rightarrow> checkout_form \<Rightarrow> (cart_item \<times> product) list \<Rightarrow> timestamp \<Rightarrow> order" where
  "orderData u f details now =
     (let subtotal = cartSubtotal details;
          tax = dmul subtotal (roundToDouble (18 / 100));
          discountAmount = num 0;
          total = dadd subtotal tax
      in \<lparr>o_userId = Some (u_uid u),
          o_userEmail = u_email u,
          o_userName = Some (if cf_customerName f \<noteq> [] then cf_customerName f
                             else orStr (u_displayName u) ''''),
          o_userPhone = Some (getFullPhoneNumber f),
          o_orderDate = Some now,
          o_createdAt = Some now,
          o_items = map (\<lambda>(item, p). \<lparr>item_productId = ci_productId item, item_name = p_name p,
                                       item_price = p_price p, item_quantity = ci_quantity item,
                                       item_image = p_image p\<rparr>) details,
          o_paymentMethod = Some ''COD'',
          o_subtotal = Some subtotal,
          o_tax = Some tax,
          o_discount = Some discountAmount,
          o_totalAmount = Some total,
          o_status = ''Placed'',
          o_statusHistory = Some
            [\<lparr>se_status = ''Placed'', se_timestamp = now, se_note = ''Order placed successfully'',
              se_updatedBy = None, se_previousStatus = None, se_adminNotes = None,
              se_metadata = None\<rparr>],
          o_shippingAddress = Some
            \<lparr>addr_name = cf_customerName f,
             addr_street = cf_houseNo f @ '', '' @ cf_line1 f @
                           (if cf_line2 f \<noteq> [] then '', '' @ cf_line2 f else ''''),
             addr_city = cf_city f,
             addr_state = cf_state f,
             addr_zip = cf_pin f,
             addr_country = cf_country f\<rparr>,
          o_total = None, o_importDuty = None, o_shippingCountry = None, o_shippingCost = None,
          o_tracking = None, o_priority = None, o_tags = None, o_adminNotes = None,
          o_globalOrderId = None, o_updatedAt = None, o_lastUpdatedBy = None,
          o_approvedAt = None, o_approvedBy = None, o_packedAt = None, o_packedBy = None,
          o_packingNotes = None, o_shippedAt = None, o_shippedBy = None, o_deliveredAt = None,
          o_deliveryConfirmation = None, o_declinedAt = None, o_declinedBy = None,
          o_declineReason = None, o_cancelledAt = None, o_cancelledBy = None,
          o_cancellationReason = None, o_refundedAt = None, o_refundedBy = None,
          o_refundAmount = None, o_refundReason = None, o_refundMethod = None\<rparr>)"

text \<open>
  \<open>completeOrder\<close>: without a signed-in user nothing is written; otherwise \<open>addDoc\<close> stores
  the order under an id the store generates, here the parameter \<open>newId\<close>. The result says
  whether an order was written.
\<close>

definition completeOrder :: "store \<Rightarrow> user option \<Rightarrow> checkout_form \<Rightarrow> cart_item list \<Rightarrow> (string \<times> product) list \<Rightarrow> string \<Rightarrow> timestamp \<Rightarrow> bool \<times> store" where
  "completeOrder st usr f cartItems ps newId now =
     (case usr of
        None \<Rightarrow> (False, st)
      | Some u \<Rightarrow>
          (True, st\<lparr>orders := (orders st)(newId \<mapsto> orderData u f (cartDetails cartItems ps) now)\<rparr>))"

subsection \<open>The account page: the missing-total calculation of fetchOrders\<close>

text \<open>
  What \<open>fetchOrders\<close> does to a document before showing it: when neither \<open>totalAmount\<close> nor
  \<open>total\<close> is truthy, \<open>totalAmount\<close> is calculated as
  \<open>subtotal + tax + shipping + importDuty - discount\<close>, the operators associating to the left;
  \<open>shipping\<close> is the constant 0 there.
\<close>

definition calculateMissingTotal :: "order \<Rightarrow> order" where
  "calculateMissingTotal data =
     (if \<not> truthyNum (o_totalAmount data) \<and> \<not> truthyNum (o_total data) then
        (let subtotal = orNum (o_subtotal data) (num 0);
             tax = orNum (o_tax data) (num 0);
             shipping = num 0;
             discount = orNum (o_discount data) (num 0);
             importDuty = orNum (o_importDuty data) (num 0)
         in data\<lparr>o_totalAmount :=
              Some (dsub (dadd (dadd (dadd subtotal tax) shipping) importDuty) discount)\<rparr>)
      else data)"

text \<open>The orders shown to user \<open>uid\<close>, from the documents the query returned.\<close>

definition fetchOrders :: "string \<Rightarrow> (string \<times> order) list \<Rightarrow> (string \<times> order) list" where
  "fetchOrders uid snapshot =
     map (\<lambda>(docId, data). (docId, calculateMissingTotal data))
       (filter (\<lambda>(docId, data). o_userId data = Some uid) snapshot)"

subsection \<open>Example data\<close>

text \<open>
  A catalogue of three products, a signed-in customer and a cart of three line items
  totalling 250, used to run the operations on concrete inputs.
\<close>

definition exampleProducts :: "(string \<times> product) list" where
  "exampleProducts =
     [(''p1'', \<lparr>p_name = ''Widget'', p_price = num 50, p_image = ''widget.png'', p_stock = Some (num 10), p_lastRestored = None\<rparr>),
      (''p2'', \<lparr>p_name = ''Gadget'', p_price = num 100, p_image = ''gadget.png'', p_stock = Some (num 5), p_lastRestored = None\<rparr>),
      (''p3'', \<lparr>p_name = ''Gizmo'', p_price = num 50, p_image = ''gizmo.png'', p_stock = None, p_lastRestored = None\<rparr>)]"

definition exampleCart :: "cart_item list" where
  "exampleCart =
     [\<lparr>ci_productId = ''p1'', ci_quantity = num 1\<rparr>,
      \<lparr>ci_productId = ''p2'', ci_quantity = num 1\<rparr>,
      \<lparr>ci_productId = ''p3'', ci_quantity = num 2\<rparr>]"

definition exampleUser :: user where
  "exampleUser = \<lparr>u_uid = ''u1'', u_email = Some ''ada@example.org'', u_displayName = Some ''Ada''\<rparr>"

definition exampleForm :: checkout_form where
  "exampleForm = \<lparr>cf_customerName = ''Ada L'', cf_selectedCountryCode = ''+91'',
     cf_phoneNumber = ''5550100'', cf_houseNo = ''12'', cf_line1 = ''Main Road'', cf_line2 = '''',
     cf_city = ''Pune'', cf_state = ''MH'', cf_country = ''India'', cf_pin = ''411001''\<rparr>"

definition exampleStore :: store where
  "exampleStore = \<lparr>orders = Map.empty, products = map_of exampleProducts, userOrders = []\<rparr>"

text \<open>The order that checkout writes for the example cart, and the store holding it.\<close>

definition exampleOrder :: order where
  "exampleOrder = orderData exampleUser exampleForm (cartDetails exampleCart exampleProducts) 1000"

definition placedStore :: store where
  "placedStore = snd (completeOrder exampleStore (Some exampleUser) exampleForm exampleCart exampleProducts ''order1'' 1000)"

text \<open>
  Line items for a product of the catalogue (\<open>p1\<close>, \<open>p2\<close>) and for a product that is not in
  the store (\<open>p9\<close>); an order with two lines for the same product.
\<close>

definition widgetLine :: "int \<Rightarrow> order_item" where
  "widgetLine q = \<lparr>item_productId = ''p1'', item_name = ''Widget'', item_price = num 50,
     item_quantity = num q, item_image = ''widget.png''\<rparr>"



definition twoLinesOrder :: order where
  "twoLinesOrder = exampleOrder\<lparr>o_items := [widgetLine 2, widgetLine 3]\<rparr>"

definition twoLinesStore :: store where
  "twoLinesStore = exampleStore\<lparr>orders := [''order2'' \<mapsto> twoLinesOrder]\<rparr>"

text \<open>
  The admin's steps on the example order: approve, pack, attach the shipping information
  \<open>{carrier: 'DHL', trackingNumber: 'X123'}\<close>.
\<close>

definition exampleShippingInfo :: shipping_info where
  "exampleShippingInfo = \<lparr>si_trackingNumber = Some ''X123'', si_carrier = Some ''DHL'',
     si_service = None, si_weight = None, si_dimensions = None, si_shippingCost = None,
     si_notes = None\<rparr>"

definition approvedStore :: store where
  "approvedStore = snd (snd (updateOrderStatus placedStore ''order1'' APPROVED noUpdateInfo ''admin'' 2000))"

definition packedStore :: store where
  "packedStore = snd (snd (updateOrderStatus approvedStore ''order1'' PACKED noUpdateInfo ''admin'' 3000))"

definition shippedStore :: store where
  "shippedStore = snd (updateShippingInfo packedStore ''order1'' exampleShippingInfo ''admin'' 4000)"

text \<open>
  Order documents without a stored total: subtotal 100, tax 18, discount 0 and shipping cost
  0; the same with a shipping cost of 50; with an import duty of 10; with a discount of 200.
\<close>

definition untotalledOrder :: order where
  "untotalledOrder = exampleOrder\<lparr>o_subtotal := Some (num 100), o_tax := Some (num 18),
     o_discount := Some (num 0), o_shippingCost := Some (num 0), o_totalAmount := None, o_total := None\<rparr>"

definition shippingCostOrder :: order where
  "shippingCostOrder = untotalledOrder\<lparr>o_shippingCost := Some (num 50)\<rparr>"

definition importDutyOrder :: order where
  "importDutyOrder = untotalledOrder\<lparr>o_importDuty := Some (num 10)\<rparr>"

definition discountedOrder :: order where
  "discountedOrder = untotalledOrder\<lparr>o_discount := Some (num 200)\<rparr>"

section \<open>Properties\<close>

subsection \<open>Whole numbers as doubles\<close>

text \<open>
  A whole number of magnitude below \<open>2^53\<close> is a double, so sums and differences of such
  numbers are exact as long as the result stays below \<open>2^53\<close>. A result that is not
  negative before rounding is not negative after it.
\<close>

lemma bitLength_le: "n < 2 ^ k \<Longrightarrow> bitLength n \<le> k"
proof (induction n arbitrary: k rule: bitLength.induct)
  case (1 n)
  show ?case
  proof (cases "n = 0")
    case True
    then show ?thesis by (simp add: bitLength.simps)
  next
    case False
    with 1(2) obtain j where k: "k = Suc j"
      by (cases k) auto
    with 1(2) have "n div 2 < 2 ^ j"
      by auto
    from 1(1) [OF False this] k False show ?thesis
      by (subst bitLength.simps) simp
  qed
qed

lemma bitLength_pos: "0 < n \<Longrightarrow> 0 < bitLength n"
  by (subst bitLength.simps) simp

lemma roundHalfEven_of_int: "roundHalfEven (of_int m) = m"
  by (simp add: roundHalfEven_def)

lemma roundHalfEven_nonneg: "0 \<le> y \<Longrightarrow> 0 \<le> roundHalfEven y"
  by (auto simp: roundHalfEven_def Let_def)

lemma pow2_pos: "0 < pow2 e"
  by (simp add: pow2_def)

lemma roundBinary64_nonneg: "0 \<le> x \<Longrightarrow> 0 \<le> roundBinary64 x"
  by (auto simp: roundBinary64_def Let_def pow2_pos less_imp_le
      intro!: mult_nonneg_nonneg roundHalfEven_nonneg divide_nonneg_pos)

lemma roundBinary64_of_int:
  assumes "\<bar>n\<bar> < 2 ^ 53"
  shows "roundBinary64 (of_int n) = of_int n"
proof (cases "n = 0")
  case True
  then show ?thesis by (simp add: roundBinary64_def)
next
  case False
  then have one: "(1::rat) \<le> \<bar>of_int n\<bar>"
    by (metis abs_ge_zero of_int_abs of_int_1_le_iff zero_less_abs_iff int_one_le_iff_zero_less less_le)
  have floor_abs: "\<lfloor>\<bar>of_int n :: rat\<bar>\<rfloor> = \<bar>n\<bar>"
    by (metis floor_of_int of_int_abs)
  have "nat \<bar>n\<bar> < 2 ^ 53"
    using assms by (simp add: nat_less_iff)
  then have le: "bitLength (nat \<bar>n\<bar>) \<le> 53"
    by (rule bitLength_le)
  have pos: "0 < bitLength (nat \<bar>n\<bar>)"
    using False by (intro bitLength_pos) simp
  define k where "k = 53 - bitLength (nat \<bar>n\<bar>)"
  have e: "max (binade \<bar>of_int n\<bar>) (- 1022) - 52 = - int k"
    using le pos one by (simp add: binade_def floor_abs k_def)
  have ulp: "pow2 (- int k) = 1 / 2 ^ k"
    by (simp add: pow2_def)
  have "of_int n / (1 / 2 ^ k) = (of_int (n * 2 ^ k) :: rat)"
    by simp
  then have "roundHalfEven (of_int n / (1 / 2 ^ k)) = n * 2 ^ k"
    by (simp only: roundHalfEven_of_int)
  with False show ?thesis
    by (simp add: roundBinary64_def Let_def e ulp)
qed

lemma roundToDouble_of_int:
  assumes "\<bar>n\<bar> < 2 ^ 53"
  shows "roundToDouble (of_int n) = Finite (of_int n)"
proof -
  have "\<bar>of_int n :: rat\<bar> < 2 ^ 53"
    using assms by (metis of_int_abs of_int_less_numeral_power_cancel_iff)
  moreover have "(2::rat) ^ 53 \<le> maxDouble"
    by (simp add: maxDouble_def)
  ultimately have "\<not> maxDouble < of_int n" "\<not> of_int n < - maxDouble"
    by linarith+
  then show ?thesis
    by (simp add: roundToDouble_def roundBinary64_of_int [OF assms])
qed

lemma num_Finite: "\<bar>n\<bar> < 2 ^ 53 \<Longrightarrow> num n = Finite (of_int n)"
  by (simp add: num_def roundToDouble_of_int)

lemma num_0: "num 0 = Finite 0"
  using num_Finite [of 0] by simp

lemma dadd_num:
  assumes "\<bar>a\<bar> < 2 ^ 53" and "\<bar>b\<bar> < 2 ^ 53" and "\<bar>a + b\<bar> < 2 ^ 53"
  shows "dadd (num a) (num b) = num (a + b)"
proof -
  have "dadd (num a) (num b) = roundToDouble (of_int (a + b))"
    by (simp add: num_Finite [OF assms(1)] num_Finite [OF assms(2)])
  then show ?thesis
    by (simp add: num_def)
qed

lemma dsub_num:
  assumes "\<bar>a\<bar> < 2 ^ 53" and "\<bar>b\<bar> < 2 ^ 53" and "\<bar>a - b\<bar> < 2 ^ 53"
  shows "dsub (num a) (num b) = num (a - b)"
proof -
  have "dsub (num a) (num b) = roundToDouble (of_int (a - b))"
    by (simp add: num_Finite [OF assms(1)] num_Finite [OF assms(2)] dsub_def)
  then show ?thesis
    by (simp add: num_def)
qed

lemma orNum_num: "\<bar>n\<bar> < 2 ^ 53 \<Longrightarrow> orNum (Some (num n)) (num 0) = num n"
  by (cases "n = 0") (simp_all add: orNum_def num_Finite)

lemma roundToDouble_nonneg:
  assumes "0 \<le> x"
  shows "dle (Finite 0) (roundToDouble x)"
proof -
  have "0 \<le> roundBinary64 x"
    using assms by (rule roundBinary64_nonneg)
  moreover have "0 \<le> maxDouble"
    by (simp add: maxDouble_def)
  ultimately show ?thesis
    by (simp add: roundToDouble_def Let_def)
qed

text \<open>
  Subtracting a finite number from one that is not below it gives a number that is not
  negative.
\<close>

lemma dsub_nonneg:
  assumes "dle (Finite d) x"
  shows "dle (num 0) (dsub x (Finite d))"
proof (cases x)
  case (Finite a)
  with assms have "0 \<le> a - d" by simp
  from roundToDouble_nonneg [OF this] Finite show ?thesis
    by (simp add: dsub_def num_0)
next
  case PosInfinity
  then show ?thesis by (simp add: dsub_def num_0)
next
  case NegInfinity
  with assms show ?thesis by simp
next
  case NaN
  with assms show ?thesis by simp
qed

subsection \<open>Facts about the constants and the example data\<close>

lemmas status_defs =
  PLACED_def APPROVED_def PACKED_def SHIPPED_def DELIVERED_def DECLINED_def CANCELLED_def
  REFUNDED_def

lemma exampleOrder_status: "o_status exampleOrder = ''Placed''"
  by (simp add: exampleOrder_def orderData_def Let_def)

lemma exampleOrder_history: "length (historyOrEmpty exampleOrder) = 1"
  by (simp add: exampleOrder_def orderData_def Let_def historyOrEmpty_def)

lemma exampleOrder_total: "o_total exampleOrder = None"
  by (simp add: exampleOrder_def orderData_def Let_def)

lemma placedStore_order: "orders placedStore ''order1'' = Some exampleOrder"
  by (simp add: placedStore_def completeOrder_def exampleOrder_def)

lemma placedStore_products: "products placedStore = map_of exampleProducts"
  by (simp add: placedStore_def completeOrder_def exampleStore_def)

text \<open>For a status of the enumeration the table has a row, and the check returns normally.\<close>

lemma transitionWarning_of_status:
  assumes "s \<in> set ORDER_STATUSES"
  shows "\<exists>allowed. map_of validTransitions s = Some allowed
           \<and> transitionWarning s ns = Inr (ns \<notin> set allowed)"
  using assms by (auto simp: ORDER_STATUSES_def validTransitions_def transitionWarning_def)

subsection \<open>The status update of the admin service\<close>

text \<open>
  Whenever \<open>updateData\<close> can be written it sets the requested status and appends one entry to
  the history of the order it was computed from; it can be written unless the target is
  Refunded and neither a refund amount nor a total is at hand.
\<close>

lemma updateData_writes:
  assumes "updateData cur ns info admin now = Inr upd"
  shows "o_status (upd d) = ns"
    and "o_statusHistory (upd d) =
           Some (historyOrEmpty cur @ [statusHistoryEntry cur ns info admin now])"
  using assms
  by (auto simp: updateData_def Let_def split: if_splits option.splits)

lemma updateData_defined:
  assumes "ns \<noteq> REFUNDED \<or> orNumOpt (ui_refundAmount info) (o_total cur) \<noteq> None"
  shows "\<exists>upd. updateData cur ns info admin now = Inr upd"
  using assms
  by (auto simp: updateData_def Let_def split: option.splits)

lemma updateData_refused:
  assumes "orNumOpt (ui_refundAmount info) (o_total cur) = None"
  shows "updateData cur REFUNDED info admin now = Inl (UnsupportedFieldValue ''refundAmount'')"
  using assms
  by (simp add: updateData_def Let_def status_defs)

lemma restoreInventory_orders: "orders (restoreInventory st now items) = orders st"
  by (simp add: restoreInventory_def)

text \<open>
  What the operation does for an order that exists and a target status of the enumeration,
  once the transition check has returned and \<open>updateData\<close> can be written: it succeeds, the
  order becomes \<open>updateData\<close> applied to it, and inventory is restored exactly for Declined and
  Cancelled. The table enters only through the flag of the warning.
\<close>

lemma updateOrderStatus_existing:
  assumes "orders st oid = Some cur" and "ns \<in> set ORDER_STATUSES"
    and "transitionWarning (o_status cur) ns = Inr warned"
    and "updateData cur ns info admin now = Inr upd"
  shows "\<exists>st'. updateOrderStatus st oid ns info admin now =
           (warned,
            Inr \<lparr>sr_orderId = oid, sr_previousStatus = o_status cur, sr_newStatus = ns,
                 sr_timestamp = now\<rparr>,
            st')
         \<and> orders st' = (orders st)(oid \<mapsto> upd cur)
         \<and> products st' = (if ns = DECLINED \<or> ns = CANCELLED
                            then products (restoreInventory st now (o_items cur)) else products st)"
  using assms
  by (simp add: updateOrderStatus_def Let_def restoreInventory_orders split: option.splits)

text \<open>A call that reports success has written \<open>updateData\<close> to the order.\<close>

lemma updateOrderStatus_success:
  assumes "orders st oid = Some cur"
    and "fst (snd (updateOrderStatus st oid ns info admin now)) = Inr result"
  shows "\<exists>upd. updateData cur ns info admin now = Inr upd
           \<and> orders (snd (snd (updateOrderStatus st oid ns info admin now))) oid = Some (upd cur)"
  using assms
  by (auto simp: updateOrderStatus_def Let_def restoreInventory_orders
      split: if_splits option.splits sum.splits)

text \<open>
  C1. The order that checkout writes has \<open>totalAmount\<close> but no \<open>total\<close>. Moving it from Placed
  to Refunded, a pair outside the table, with no refund amount given: the warning is logged,
  but \<open>refundAmount\<close> comes out \<open>undefined\<close>, the transaction refuses the update, and the call
  returns a failure with nothing written. The request is rejected, where the admin's
  override was to honour it.
\<close>

theorem updateOrderStatus_override_refund_rejected:
  "o_status exampleOrder = PLACED
   \<and> map_of validTransitions PLACED = Some [APPROVED, DECLINED, CANCELLED]
   \<and> updateOrderStatus placedStore ''order1'' REFUNDED noUpdateInfo ''admin'' 2000 =
       (True, Inl (UnsupportedFieldValue ''refundAmount''), placedStore)"
proof -
  have refused: "updateData exampleOrder REFUNDED noUpdateInfo ''admin'' 2000 =
                   Inl (UnsupportedFieldValue ''refundAmount'')"
    by (rule updateData_refused) (simp add: orNumOpt_def noUpdateInfo_def exampleOrder_total)
  have warned: "transitionWarning (o_status exampleOrder) REFUNDED = Inr True"
    by (simp add: transitionWarning_def validTransitions_def exampleOrder_status status_defs)
  have "REFUNDED \<in> set ORDER_STATUSES"
    by (simp add: ORDER_STATUSES_def)
  with refused warned have
    "updateOrderStatus placedStore ''order1'' REFUNDED noUpdateInfo ''admin'' 2000 =
       (True, Inl (UnsupportedFieldValue ''refundAmount''), placedStore)"
    by (simp add: updateOrderStatus_def placedStore_order Let_def status_defs)
  moreover have "o_status exampleOrder = PLACED"
    by (simp add: exampleOrder_status PLACED_def)
  moreover have "map_of validTransitions PLACED = Some [APPROVED, DECLINED, CANCELLED]"
    by (simp add: validTransitions_def)
  ultimately show ?thesis
    by (intro conjI)
qed

text \<open>
  Apart from that failure the override holds, for pairs inside and outside the table alike.
  For an order whose status is one of the eight and a target of the enumeration, with a
  refund amount or total at hand when the target is Refunded, the call succeeds and reports
  the previous and the new status; the order becomes \<open>updateData\<close> applied to it, that is,
  it has the requested status and one more history entry; inventory is restored exactly for
  Declined and Cancelled. The warning is logged exactly when the target is not in the row of
  the current status.
\<close>

lemma updateOrderStatus_any_pair:
  assumes "orders st orderId = Some currentOrder"
    and "o_status currentOrder \<in> set ORDER_STATUSES"
    and "newStatus \<in> set ORDER_STATUSES"
    and "newStatus \<noteq> REFUNDED \<or> orNumOpt (ui_refundAmount updateInfo) (o_total currentOrder) \<noteq> None"
  shows "\<exists>allowed upd st'.
           map_of validTransitions (o_status currentOrder) = Some allowed
         \<and> updateData currentOrder newStatus updateInfo adminUserId now = Inr upd
         \<and> updateOrderStatus st orderId newStatus updateInfo adminUserId now =
             (newStatus \<notin> set allowed,
              Inr \<lparr>sr_orderId = orderId, sr_previousStatus = o_status currentOrder,
                   sr_newStatus = newStatus, sr_timestamp = now\<rparr>,
              st')
         \<and> orders st' = (orders st)(orderId \<mapsto> upd currentOrder)
         \<and> o_status (upd currentOrder) = newStatus
         \<and> o_statusHistory (upd currentOrder) =
             Some (historyOrEmpty currentOrder @
                   [statusHistoryEntry currentOrder newStatus updateInfo adminUserId now])
         \<and> products st' = (if newStatus = DECLINED \<or> newStatus = CANCELLED
                            then products (restoreInventory st now (o_items currentOrder))
                            else products st)"
proof -
  from transitionWarning_of_status [OF assms(2), of newStatus]
  obtain allowed where row: "map_of validTransitions (o_status currentOrder) = Some allowed"
    and check: "transitionWarning (o_status currentOrder) newStatus = Inr (newStatus \<notin> set allowed)"
    by blast
  from updateData_defined [OF assms(4), of adminUserId now]
  obtain upd where upd: "updateData currentOrder newStatus updateInfo adminUserId now = Inr upd"
    by blast
  from updateOrderStatus_existing [OF assms(1) assms(3) check upd]
  obtain st' where
    "updateOrderStatus st orderId newStatus updateInfo adminUserId now =
       (newStatus \<notin> set allowed,
        Inr \<lparr>sr_orderId = orderId, sr_previousStatus = o_status currentOrder,
             sr_newStatus = newStatus, sr_timestamp = now\<rparr>,
        st')"
    and "orders st' = (orders st)(orderId \<mapsto> upd currentOrder)"
    and "products st' = (if newStatus = DECLINED \<or> newStatus = CANCELLED
                         then products (restoreInventory st now (o_items currentOrder))
                         else products st)"
    by blast
  with row upd updateData_writes [OF upd, of currentOrder] show ?thesis
    by blast
qed

text \<open>
  C2. When a call for an existing order reports success, the stored history is the old
  history (empty when the field is absent) followed by exactly one entry; the entry holds
  the new status, the timestamp, the note (the given one, or "Order <status> by admin") and
  the acting admin. So no entry is removed or reordered and the length grows by exactly 1.
\<close>

theorem updateOrderStatus_appends_one_entry:
  assumes "orders st orderId = Some currentOrder"
    and "fst (snd (updateOrderStatus st orderId newStatus updateInfo adminUserId now)) = Inr result"
  shows "\<exists>updated entry.
           orders (snd (snd (updateOrderStatus st orderId newStatus updateInfo adminUserId now))) orderId
             = Some updated
         \<and> o_statusHistory updated = Some (historyOrEmpty currentOrder @ [entry])
         \<and> se_status entry = newStatus
         \<and> se_timestamp entry = now
         \<and> se_note entry = orStr (ui_note updateInfo) (''Order '' @ toLowerCase newStatus @ '' by admin'')
         \<and> se_updatedBy entry = Some adminUserId
         \<and> length (historyOrEmpty updated) = length (historyOrEmpty currentOrder) + 1"
proof -
  let ?entry = "statusHistoryEntry currentOrder newStatus updateInfo adminUserId now"
  from updateOrderStatus_success [OF assms]
  obtain upd where upd: "updateData currentOrder newStatus updateInfo adminUserId now = Inr upd"
    and stored: "orders (snd (snd (updateOrderStatus st orderId newStatus updateInfo adminUserId now)))
                   orderId = Some (upd currentOrder)"
    by blast
  have hist: "o_statusHistory (upd currentOrder) = Some (historyOrEmpty currentOrder @ [?entry])"
    using upd by (rule updateData_writes)
  then have len: "length (historyOrEmpty (upd currentOrder)) = length (historyOrEmpty currentOrder) + 1"
    by (simp add: historyOrEmpty_def [of "upd currentOrder"])
  have entry: "se_status ?entry = newStatus" "se_timestamp ?entry = now"
    "se_note ?entry = orStr (ui_note updateInfo) (''Order '' @ toLowerCase newStatus @ '' by admin'')"
    "se_updatedBy ?entry = Some adminUserId"
    by (simp_all add: statusHistoryEntry_def)
  from stored hist len entry show ?thesis
    by blast
qed

text \<open>
  On the example: approving the order placed at checkout succeeds; its history had the one
  entry written at checkout and now has two, the last one for Approved by the acting admin.
\<close>

theorem updateOrderStatus_appends_one_entry_witness:
  "fst (snd (updateOrderStatus placedStore ''order1'' APPROVED noUpdateInfo ''admin'' 2000)) =
     Inr \<lparr>sr_orderId = ''order1'', sr_previousStatus = ''Placed'', sr_newStatus = ''Approved'',
          sr_timestamp = 2000\<rparr>
   \<and> map_option (\<lambda>d. length (historyOrEmpty d))
       (orders (snd (snd (updateOrderStatus placedStore ''order1'' APPROVED noUpdateInfo ''admin'' 2000)))
          ''order1'') = Some 2
   \<and> map_option (\<lambda>d. map (\<lambda>e. (se_status e, se_updatedBy e)) (drop 1 (historyOrEmpty d)))
       (orders (snd (snd (updateOrderStatus placedStore ''order1'' APPROVED noUpdateInfo ''admin'' 2000)))
          ''order1'') = Some [(''Approved'', Some ''admin'')]"
proof -
  let ?run = "updateOrderStatus placedStore ''order1'' APPROVED noUpdateInfo ''admin'' 2000"
  have h1: "o_status exampleOrder \<in> set ORDER_STATUSES"
    by (simp add: exampleOrder_status ORDER_STATUSES_def status_defs)
  have h2: "APPROVED \<in> set ORDER_STATUSES"
    by (simp add: ORDER_STATUSES_def)
  have h3: "APPROVED \<noteq> REFUNDED \<or> orNumOpt (ui_refundAmount noUpdateInfo) (o_total exampleOrder) \<noteq> None"
    by (simp add: status_defs)
  from updateOrderStatus_any_pair [OF placedStore_order h1 h2 h3, of "''admin''" 2000]
  have success: "fst (snd ?run) =
      Inr \<lparr>sr_orderId = ''order1'', sr_previousStatus = ''Placed'', sr_newStatus = ''Approved'',
           sr_timestamp = 2000\<rparr>"
    by (auto simp: exampleOrder_status APPROVED_def)
  from updateOrderStatus_appends_one_entry [OF placedStore_order success]
  obtain updated entry where
    "orders (snd (snd ?run)) ''order1'' = Some updated"
    "o_statusHistory updated = Some (historyOrEmpty exampleOrder @ [entry])"
    "se_status entry = APPROVED" "se_updatedBy entry = Some ''admin''"
    "length (historyOrEmpty updated) = length (historyOrEmpty exampleOrder) + 1"
    by blast
  with success show ?thesis
    by (simp add: exampleOrder_history historyOrEmpty_def [of updated] APPROVED_def)
qed

subsection \<open>Inventory restoration\<close>


lemma commitStockBatch_untouched:
  "pid \<notin> fst ` set batch \<Longrightarrow> commitStockBatch now batch ps pid = ps pid"
proof (induction batch arbitrary: ps)
  case Nil
  then show ?case by (simp add: commitStockBatch_def)
next
  case (Cons w batch)
  from Cons.prems have "fst w \<noteq> pid" and rest: "pid \<notin> fst ` set batch" by auto
  then have "applyStockWrite now w ps pid = ps pid"
    by (simp add: applyStockWrite_def split: option.splits)
  with Cons.IH [OF rest, of "applyStockWrite now w ps"] show ?case
    by (simp add: commitStockBatch_def)
qed

text \<open>A committed batch changes nothing of a product but its stock and \<open>lastRestored\<close>.\<close>

lemma commitStockBatch_fields:
  assumes "ps pid = Some p"
  shows "\<exists>s r. commitStockBatch now batch ps pid = Some (p\<lparr>p_stock := s, p_lastRestored := r\<rparr>)"
  using assms
proof (induction batch arbitrary: ps p)
  case Nil
  have "p = p\<lparr>p_stock := p_stock p, p_lastRestored := p_lastRestored p\<rparr>"
    by simp
  with Nil show ?case
    unfolding commitStockBatch_def fold.simps id_apply by metis
next
  case (Cons w batch)
  show ?case
  proof (cases "fst w = pid")
    case True
    with Cons.prems have
      "applyStockWrite now w ps pid = Some (p\<lparr>p_stock := Some (snd w), p_lastRestored := Some now\<rparr>)"
      by (simp add: applyStockWrite_def)
    from Cons.IH [of "applyStockWrite now w ps"
        "p\<lparr>p_stock := Some (snd w), p_lastRestored := Some now\<rparr>", OF this]
    obtain s r where
      "commitStockBatch now batch (applyStockWrite now w ps) pid =
         Some (p\<lparr>p_stock := Some (snd w), p_lastRestored := Some now\<rparr>
                \<lparr>p_stock := s, p_lastRestored := r\<rparr>)"
      by blast
    then have "commitStockBatch now (w # batch) ps pid = Some (p\<lparr>p_stock := s, p_lastRestored := r\<rparr>)"
      by (simp add: commitStockBatch_def)
    then show ?thesis by blast
  next
    case False
    with Cons.prems have "applyStockWrite now w ps pid = Some p"
      by (simp add: applyStockWrite_def split: option.splits)
    from Cons.IH [of "applyStockWrite now w ps" p, OF this] show ?thesis
      by (simp add: commitStockBatch_def)
  qed
qed

text \<open>The last write queued for a product is the one that stands.\<close>

lemma commitStockBatch_last_write:
  assumes "ps pid = Some p" and "pid \<notin> fst ` set later"
  shows "commitStockBatch now (earlier @ (pid, s) # later) ps pid =
           Some (p\<lparr>p_stock := Some s, p_lastRestored := Some now\<rparr>)"
proof -
  from commitStockBatch_fields [where ps = ps and pid = pid and p = p and now = now
      and batch = earlier, OF assms(1)]
  obtain s' r' where before:
    "commitStockBatch now earlier ps pid = Some (p\<lparr>p_stock := s', p_lastRestored := r'\<rparr>)"
    by blast
  let ?ps1 = "commitStockBatch now earlier ps"
  have "applyStockWrite now (pid, s) ?ps1 pid =
          Some (p\<lparr>p_stock := Some s, p_lastRestored := Some now\<rparr>)"
    using before by (simp add: applyStockWrite_def)
  moreover have "commitStockBatch now later (applyStockWrite now (pid, s) ?ps1) pid =
                   applyStockWrite now (pid, s) ?ps1 pid"
    using assms(2) by (rule commitStockBatch_untouched)
  moreover have "commitStockBatch now (earlier @ (pid, s) # later) ps =
                   commitStockBatch now later (applyStockWrite now (pid, s) ?ps1)"
    by (simp add: commitStockBatch_def)
  ultimately show ?thesis
    by simp
qed

lemma restoreInventory_batch_append:
  "restoreInventory_batch ps (xs @ ys) = restoreInventory_batch ps xs @ restoreInventory_batch ps ys"
  by (induction xs) (auto simp: Let_def split: option.splits)

lemma restoreInventory_batch_keys:
  "fst ` set (restoreInventory_batch ps items) \<subseteq> item_productId ` set items"
  by (induction items) (auto simp: Let_def split: option.splits)


text \<open>
  For a line whose product exists and is not the product of any later line, the product
  ends with the stock read before the commit plus the line's quantity.
\<close>

lemma restoreInventory_last_line:
  assumes "products st (item_productId item) = Some p"
    and "item_productId item \<notin> item_productId ` set later"
  shows "products (restoreInventory st now (earlier @ item # later)) (item_productId item) =
           Some (p\<lparr>p_stock := Some (dadd (orNum (p_stock p) (num 0)) (item_quantity item)),
                   p_lastRestored := Some now\<rparr>)"
proof -
  have "restoreInventory_batch (products st) (earlier @ item # later) =
          restoreInventory_batch (products st) earlier @
          (item_productId item, dadd (orNum (p_stock p) (num 0)) (item_quantity item)) #
          restoreInventory_batch (products st) later"
    using assms(1) by (simp add: restoreInventory_batch_append Let_def)
  moreover have "item_productId item \<notin> fst ` set (restoreInventory_batch (products st) later)"
    using assms(2) restoreInventory_batch_keys [of "products st" later] by blast
  ultimately show ?thesis
    using commitStockBatch_last_write [where ps = "products st" and pid = "item_productId item"
        and p = p and now = now, OF assms(1)]
    by (simp add: restoreInventory_def)
qed

lemma twoLinesStore_order: "orders twoLinesStore ''order2'' = Some twoLinesOrder"
  by (simp add: twoLinesStore_def)

lemma twoLinesStore_widget:
  "products twoLinesStore ''p1'' =
     Some \<lparr>p_name = ''Widget'', p_price = num 50, p_image = ''widget.png'', p_stock = Some (num 10),
           p_lastRestored = None\<rparr>"
  by (simp add: twoLinesStore_def exampleStore_def exampleProducts_def)

text \<open>
  C3. An order with two lines for the same product: product \<open>p1\<close> has stock 10, the order a
  line of 2 and a line of 3 of it. Cancelling the order succeeds. Both queued writes are
  computed from the stock read before the commit (12 and 13), and the second one stands: the
  stock after cancellation is 13, which is neither 10 + 2 nor 10 + 2 + 3. The restoration of
  the first line is lost.
\<close>

theorem restoreInventory_same_product_loses_restoration:
  "map_option p_stock (products twoLinesStore ''p1'') = Some (Some (num 10))
   \<and> map (\<lambda>i. (item_productId i, item_quantity i)) (o_items twoLinesOrder) =
       [(''p1'', num 2), (''p1'', num 3)]
   \<and> fst (snd (updateOrderStatus twoLinesStore ''order2'' CANCELLED noUpdateInfo ''admin'' 2000)) =
       Inr \<lparr>sr_orderId = ''order2'', sr_previousStatus = ''Placed'', sr_newStatus = ''Cancelled'',
            sr_timestamp = 2000\<rparr>
   \<and> map_option p_stock
       (products (snd (snd (updateOrderStatus twoLinesStore ''order2'' CANCELLED noUpdateInfo ''admin'' 2000)))
          ''p1'')
     = Some (Some (num 13))
   \<and> dadd (num 10) (num 2) = num 12
   \<and> dadd (dadd (num 10) (num 2)) (num 3) = num 15
   \<and> num 13 \<noteq> num 12 \<and> num 13 \<noteq> num 15"
proof -
  let ?run = "updateOrderStatus twoLinesStore ''order2'' CANCELLED noUpdateInfo ''admin'' 2000"
  have status: "o_status twoLinesOrder = ''Placed''"
    by (simp add: twoLinesOrder_def exampleOrder_status)
  have h1: "o_status twoLinesOrder \<in> set ORDER_STATUSES"
    by (simp add: status ORDER_STATUSES_def status_defs)
  have h2: "CANCELLED \<in> set ORDER_STATUSES"
    by (simp add: ORDER_STATUSES_def)
  have h3: "CANCELLED \<noteq> REFUNDED \<or> orNumOpt (ui_refundAmount noUpdateInfo) (o_total twoLinesOrder) \<noteq> None"
    by (simp add: status_defs)
  from updateOrderStatus_any_pair [OF twoLinesStore_order h1 h2 h3, of "''admin''" 2000]
  have result: "fst (snd ?run) =
      Inr \<lparr>sr_orderId = ''order2'', sr_previousStatus = ''Placed'', sr_newStatus = ''Cancelled'',
           sr_timestamp = 2000\<rparr>"
    and restored: "products (snd (snd ?run)) = products (restoreInventory twoLinesStore 2000 (o_items twoLinesOrder))"
    by (auto simp: status CANCELLED_def)
  have pid: "item_productId (widgetLine 3) = ''p1''" and qty: "item_quantity (widgetLine 3) = num 3"
    by (simp_all add: widgetLine_def)
  have "products (restoreInventory twoLinesStore 2000 ([widgetLine 2] @ widgetLine 3 # [])) ''p1'' =
          Some (\<lparr>p_name = ''Widget'', p_price = num 50, p_image = ''widget.png'',
                 p_stock = Some (num 10), p_lastRestored = None\<rparr>
                \<lparr>p_stock := Some (dadd (orNum (Some (num 10)) (num 0)) (num 3)),
                 p_lastRestored := Some 2000\<rparr>)"
    using restoreInventory_last_line [of twoLinesStore "widgetLine 3" _ "[]" 2000 "[widgetLine 2]"]
      twoLinesStore_widget
    by (simp add: pid qty)
  then have after: "map_option p_stock (products (snd (snd ?run)) ''p1'') = Some (Some (num 13))"
    by (simp add: restored twoLinesOrder_def orNum_num dadd_num)
  have before: "map_option p_stock (products twoLinesStore ''p1'') = Some (Some (num 10))"
    by (simp add: twoLinesStore_widget)
  have lines: "map (\<lambda>i. (item_productId i, item_quantity i)) (o_items twoLinesOrder) =
                 [(''p1'', num 2), (''p1'', num 3)]"
    by (simp add: twoLinesOrder_def widgetLine_def)
  have sums: "dadd (num 10) (num 2) = num 12" "dadd (dadd (num 10) (num 2)) (num 3) = num 15"
    by (simp_all add: dadd_num)
  have differ: "num 13 \<noteq> num 12" "num 13 \<noteq> num 15"
    by (simp_all add: num_Finite)
  from before lines result after sums differ show ?thesis
    by (intro conjI)
qed



subsection \<open>The Orders page handler\<close>

text \<open>
  C4. Whatever the target status (Declined and Cancelled included) and whatever the answer
  to the confirmation, the page's handler leaves every product document, every denormalised
  copy and every other order as they were. When it reports the update, the order document
  is the old one with exactly \<open>status\<close> and \<open>statusHistory\<close> replaced (a record update of these
  two fields: no \<open>approvedAt\<close>, \<open>declinedBy\<close>, \<open>refundAmount\<close>, ... is set); otherwise the store
  is unchanged. A confirmed request on an existing order is always carried out.
\<close>

theorem Orders_updateOrderStatus_writes_status_and_history_only:
  "\<exists>outcome st'.
     Orders_updateOrderStatus st orderId newStatus additionalInfo confirmed now = (outcome, st')
     \<and> products st' = products st
     \<and> userOrders st' = userOrders st
     \<and> (\<forall>other. other \<noteq> orderId \<longrightarrow> orders st' other = orders st other)
     \<and> (outcome = StatusUpdated \<longrightarrow>
          (\<exists>orderData. orders st orderId = Some orderData
             \<and> orders st' orderId =
                  Some (orderData\<lparr>o_status := newStatus,
                                  o_statusHistory := Some (historyOrEmpty orderData @
                                    [pageStatusUpdate newStatus additionalInfo now])\<rparr>)))
     \<and> (outcome \<noteq> StatusUpdated \<longrightarrow> st' = st)
     \<and> (orders st orderId \<noteq> None \<and> confirmed \<longrightarrow> outcome = StatusUpdated)"
  by (cases "orders st orderId") (simp_all add: Orders_updateOrderStatus_def Let_def)

text \<open>
  On the example: declining the order placed at checkout from the page, confirmed. The
  handler reports the update; the product documents are the same (the stock of \<open>p1\<close> is still
  10: nothing is restored), and the order differs from the placed one in \<open>status\<close> and
  \<open>statusHistory\<close> only.
\<close>

theorem Orders_updateOrderStatus_writes_status_and_history_only_witness:
  "fst (Orders_updateOrderStatus placedStore ''order1'' DECLINED noUpdateInfo True 2000) = StatusUpdated
   \<and> products (snd (Orders_updateOrderStatus placedStore ''order1'' DECLINED noUpdateInfo True 2000)) =
       products placedStore
   \<and> map_option p_stock
       (products (snd (Orders_updateOrderStatus placedStore ''order1'' DECLINED noUpdateInfo True 2000)) ''p1'')
     = Some (Some (num 10))
   \<and> orders (snd (Orders_updateOrderStatus placedStore ''order1'' DECLINED noUpdateInfo True 2000)) ''order1'' =
       Some (exampleOrder\<lparr>o_status := DECLINED,
                          o_statusHistory := Some (historyOrEmpty exampleOrder @
                            [pageStatusUpdate DECLINED noUpdateInfo 2000])\<rparr>)"
proof -
  from Orders_updateOrderStatus_writes_status_and_history_only
    [of placedStore "''order1''" DECLINED noUpdateInfo True 2000]
  obtain outcome st' where
    run: "Orders_updateOrderStatus placedStore ''order1'' DECLINED noUpdateInfo True 2000 = (outcome, st')"
    and frame: "products st' = products placedStore"
    and written: "outcome = StatusUpdated \<longrightarrow>
          (\<exists>orderData. orders placedStore ''order1'' = Some orderData
             \<and> orders st' ''order1'' =
                  Some (orderData\<lparr>o_status := DECLINED,
                                  o_statusHistory := Some (historyOrEmpty orderData @
                                    [pageStatusUpdate DECLINED noUpdateInfo 2000])\<rparr>))"
    and carried: "orders placedStore ''order1'' \<noteq> None \<and> True \<longrightarrow> outcome = StatusUpdated"
    by blast
  from carried have outcome: "outcome = StatusUpdated"
    by (simp add: placedStore_order)
  with written have
    "orders st' ''order1'' =
       Some (exampleOrder\<lparr>o_status := DECLINED,
                          o_statusHistory := Some (historyOrEmpty exampleOrder @
                            [pageStatusUpdate DECLINED noUpdateInfo 2000])\<rparr>)"
    by (simp add: placedStore_order)
  moreover have "map_option p_stock (products placedStore ''p1'') = Some (Some (num 10))"
    by (simp add: placedStore_products exampleProducts_def)
  ultimately show ?thesis
    using run frame outcome by simp
qed

subsection \<open>Bulk operations\<close>

text \<open>
  C6. A bulk status change to a status \<open>S\<close> outside the enumeration on \<open>[A, B]\<close>, where order
  \<open>A\<close> exists and order \<open>B\<close> does not: the call returns a result with \<open>successCount = 0\<close> and
  \<open>failureCount = 2\<close>; the per-item results are, in order, the invalid-status failure for \<open>A\<close>
  and the not-found failure for \<open>B\<close> (so the first failure did not stop the loop), and the
  store is unchanged.
\<close>

theorem bulkOperation_invalid_status_and_missing_order:
  assumes "orders st A = Some orderA"
    and "orders st B = None"
    and "od_status operationData = Some S"
    and "S \<notin> set ORDER_STATUSES"
  shows "bulkOperation st ''update_status'' [A, B] operationData adminUserId now =
           (Inr \<lparr>br_operation = ''update_status'', br_totalOrders = 2, br_successCount = 0,
                 br_failureCount = 2,
                 br_results = [ItemFailed A (ItemInvalidStatus (Some S)), ItemFailed B ItemOrderNotFound]\<rparr>,
            st)"
  using assms
  by (simp add: bulkOperation_def bulkUpdateFor_def commitOrderBatch_def)

text \<open>
  On the example: the order placed at checkout exists, \<open>order9\<close> does not, and \<open>INVALID\<close> is
  not a status.
\<close>

theorem bulkOperation_invalid_status_and_missing_order_witness:
  "bulkOperation placedStore ''update_status'' [''order1'', ''order9'']
     \<lparr>od_status = Some ''INVALID'', od_note = None, od_priority = None, od_tag = ''''\<rparr> ''admin'' 2000 =
     (Inr \<lparr>br_operation = ''update_status'', br_totalOrders = 2, br_successCount = 0,
           br_failureCount = 2,
           br_results = [ItemFailed ''order1'' (ItemInvalidStatus (Some ''INVALID'')),
                         ItemFailed ''order9'' ItemOrderNotFound]\<rparr>,
      placedStore)"
proof -
  have h2: "orders placedStore ''order9'' = None"
    by (simp add: placedStore_def completeOrder_def exampleStore_def)
  have h3: "od_status \<lparr>od_status = Some ''INVALID'', od_note = None, od_priority = None, od_tag = ''''\<rparr>
              = Some ''INVALID''"
    by simp
  have h4: "''INVALID'' \<notin> set ORDER_STATUSES"
    by (simp add: ORDER_STATUSES_def status_defs)
  from bulkOperation_invalid_status_and_missing_order [OF placedStore_order h2 h3 h4]
  show ?thesis .
qed

text \<open>
  C7. With more than 50 order ids the bulk operation fails with the limit error, with no
  order id with the error "No order IDs provided"; in both cases before any read or write:
  the store is returned as it was.
\<close>

theorem bulkOperation_size_validation:
  "(length orderIds > 50 \<longrightarrow>
      bulkOperation st operation orderIds operationData adminUserId now = (Inl BulkLimitExceeded, st))
   \<and> (orderIds = [] \<longrightarrow>
      bulkOperation st operation orderIds operationData adminUserId now = (Inl NoOrderIds, st))"
  by (auto simp: bulkOperation_def)

text \<open>On the example: 51 order ids, and none.\<close>

theorem bulkOperation_size_validation_witness:
  "bulkOperation placedStore ''update_status'' (replicate 51 ''order1'')
     \<lparr>od_status = Some ''Approved'', od_note = None, od_priority = None, od_tag = ''''\<rparr> ''admin'' 2000 =
     (Inl BulkLimitExceeded, placedStore)
   \<and> bulkOperation placedStore ''update_status'' []
     \<lparr>od_status = Some ''Approved'', od_note = None, od_priority = None, od_tag = ''''\<rparr> ''admin'' 2000 =
     (Inl NoOrderIds, placedStore)"
  using bulkOperation_size_validation [of "replicate 51 ''order1''" placedStore "''update_status''"
      "\<lparr>od_status = Some ''Approved'', od_note = None, od_priority = None, od_tag = ''''\<rparr>" "''admin''" 2000]
    bulkOperation_size_validation [of "[]" placedStore "''update_status''"
      "\<lparr>od_status = Some ''Approved'', od_note = None, od_priority = None, od_tag = ''''\<rparr>" "''admin''" 2000]
  by simp

subsection \<open>Shipping information\<close>

text \<open>
  C8. When the tracking number or the carrier is empty (absent or the empty string), the
  shipping update fails with the validation error for the first of the two that is empty,
  and the store is returned as it was: no order's status, tracking descriptor or history
  changes.
\<close>

theorem updateShippingInfo_requires_tracking_number_and_carrier:
  assumes "\<not> truthyStr (si_trackingNumber shippingInfo) \<or> \<not> truthyStr (si_carrier shippingInfo)"
  shows "updateShippingInfo st orderId shippingInfo adminUserId now =
           (Inl (if \<not> truthyStr (si_trackingNumber shippingInfo)
                 then TrackingNumberRequired else CarrierRequired),
            st)"
  using assms
  by (auto simp: updateShippingInfo_def truthyStr_def split: option.splits)

text \<open>
  On the example: the packed order, a tracking number but an empty carrier; and a carrier
  but no tracking number.
\<close>

theorem updateShippingInfo_requires_tracking_number_and_carrier_witness:
  "updateShippingInfo packedStore ''order1'' (exampleShippingInfo\<lparr>si_carrier := Some ''''\<rparr>) ''admin'' 4000 =
     (Inl CarrierRequired, packedStore)
   \<and> updateShippingInfo packedStore ''order1'' (exampleShippingInfo\<lparr>si_trackingNumber := None\<rparr>) ''admin'' 4000 =
     (Inl TrackingNumberRequired, packedStore)"
proof -
  have h1: "\<not> truthyStr (si_trackingNumber (exampleShippingInfo\<lparr>si_carrier := Some ''''\<rparr>))
            \<or> \<not> truthyStr (si_carrier (exampleShippingInfo\<lparr>si_carrier := Some ''''\<rparr>))"
    by (simp add: truthyStr_def)
  have h2: "\<not> truthyStr (si_trackingNumber (exampleShippingInfo\<lparr>si_trackingNumber := None\<rparr>))
            \<or> \<not> truthyStr (si_carrier (exampleShippingInfo\<lparr>si_trackingNumber := None\<rparr>))"
    by (simp add: truthyStr_def)
  from updateShippingInfo_requires_tracking_number_and_carrier [OF h1, of packedStore "''order1''" "''admin''" 4000]
    updateShippingInfo_requires_tracking_number_and_carrier [OF h2, of packedStore "''order1''" "''admin''" 4000]
  show ?thesis
    by (simp add: truthyStr_def exampleShippingInfo_def)
qed

subsection \<open>The reconstructed total\<close>

lemma untotalledOrder_fields:
  "o_subtotal untotalledOrder = Some (num 100)" "o_tax untotalledOrder = Some (num 18)"
  "o_discount untotalledOrder = Some (num 0)" "o_shippingCost untotalledOrder = Some (num 0)"
  "o_importDuty untotalledOrder = None" "o_totalAmount untotalledOrder = None"
  "o_total untotalledOrder = None"
  by (simp_all add: untotalledOrder_def exampleOrder_def orderData_def Let_def)

lemma orNum_absent: "orNum None (num 0) = num 0"
  by (simp add: orNum_def)

lemma orNum_zero: "orNum (Some (num 0)) (num 0) = num 0"
  by (simp add: orNum_def num_0)

text \<open>
  C9, as stated, fails in two ways. The shipping cost is not part of the calculation
  (\<open>shipping\<close> is the constant 0) while an import duty is: with subtotal 100, tax 18, discount 0
  and a shipping cost of 50 the calculated total is 118, where subtotal + tax + shipping cost
  - discount is 168; with an import duty of 10 and no shipping cost it is 128, where that
  formula gives 118. And nothing keeps the result non-negative: with a discount of 200 it is
  -82.
\<close>

theorem calculateMissingTotal_counterexample:
  "o_totalAmount (calculateMissingTotal shippingCostOrder) = Some (num 118)
   \<and> dsub (dadd (dadd (orNum (o_subtotal shippingCostOrder) (num 0))
                       (orNum (o_tax shippingCostOrder) (num 0)))
                 (orNum (o_shippingCost shippingCostOrder) (num 0)))
           (orNum (o_discount shippingCostOrder) (num 0)) = num 168
   \<and> o_totalAmount (calculateMissingTotal importDutyOrder) = Some (num 128)
   \<and> dsub (dadd (dadd (orNum (o_subtotal importDutyOrder) (num 0))
                       (orNum (o_tax importDutyOrder) (num 0)))
                 (orNum (o_shippingCost importDutyOrder) (num 0)))
           (orNum (o_discount importDutyOrder) (num 0)) = num 118
   \<and> o_totalAmount (calculateMissingTotal discountedOrder) = Some (num (- 82))
   \<and> num 118 \<noteq> num 168 \<and> num 128 \<noteq> num 118 \<and> \<not> dle (num 0) (num (- 82))"
proof -
  have totals: "o_totalAmount (calculateMissingTotal shippingCostOrder) = Some (num 118)"
    "o_totalAmount (calculateMissingTotal importDutyOrder) = Some (num 128)"
    "o_totalAmount (calculateMissingTotal discountedOrder) = Some (num (- 82))"
    by (simp_all add: calculateMissingTotal_def shippingCostOrder_def importDutyOrder_def
        discountedOrder_def untotalledOrder_fields truthyNum_def Let_def
        orNum_num orNum_absent orNum_zero dadd_num dsub_num)
  have formula:
    "dsub (dadd (dadd (orNum (o_subtotal shippingCostOrder) (num 0))
                      (orNum (o_tax shippingCostOrder) (num 0)))
                (orNum (o_shippingCost shippingCostOrder) (num 0)))
          (orNum (o_discount shippingCostOrder) (num 0)) = num 168"
    "dsub (dadd (dadd (orNum (o_subtotal importDutyOrder) (num 0))
                      (orNum (o_tax importDutyOrder) (num 0)))
                (orNum (o_shippingCost importDutyOrder) (num 0)))
          (orNum (o_discount importDutyOrder) (num 0)) = num 118"
    by (simp_all add: shippingCostOrder_def importDutyOrder_def untotalledOrder_fields
        orNum_num orNum_zero dadd_num dsub_num)
  have differ: "num 118 \<noteq> num 168" "num 128 \<noteq> num 118" "\<not> dle (num 0) (num (- 82))"
    by (simp_all add: num_Finite)
  from totals formula differ show ?thesis
    by (intro conjI)
qed

text \<open>
  C9, amended. For an order document with neither \<open>totalAmount\<close> nor \<open>total\<close> (absent, 0 or
  NaN), the total shown to the customer is \<open>subtotal + tax + 0 + importDuty - discount\<close>,
  computed from left to right in double arithmetic, each absent or falsy component counted
  as 0 and no shipping cost included. When the four components are whole numbers and they
  and the partial results have magnitude below \<open>2^53\<close>, the result is exactly
  subtotal + tax + import duty - discount. It is non-negative whenever the discount is
  finite and does not exceed the computed sum \<open>subtotal + tax + 0 + importDuty\<close>.
\<close>

theorem calculateMissingTotal_reconstructs_total:
  assumes "\<not> truthyNum (o_totalAmount data)" and "\<not> truthyNum (o_total data)"
  shows "let subtotal = orNum (o_subtotal data) (num 0);
             tax = orNum (o_tax data) (num 0);
             importDuty = orNum (o_importDuty data) (num 0);
             discount = orNum (o_discount data) (num 0);
             gross = dadd (dadd (dadd subtotal tax) (num 0)) importDuty
         in o_totalAmount (calculateMissingTotal data) = Some (dsub gross discount)
            \<and> (\<forall>s t i d. subtotal = num s \<and> tax = num t \<and> importDuty = num i \<and> discount = num d
                  \<and> \<bar>s\<bar> < 2 ^ 53 \<and> \<bar>t\<bar> < 2 ^ 53 \<and> \<bar>i\<bar> < 2 ^ 53 \<and> \<bar>d\<bar> < 2 ^ 53
                  \<and> \<bar>s + t\<bar> < 2 ^ 53 \<and> \<bar>s + t + i\<bar> < 2 ^ 53 \<and> \<bar>s + t + i - d\<bar> < 2 ^ 53
                  \<longrightarrow> o_totalAmount (calculateMissingTotal data) = Some (num (s + t + i - d)))
            \<and> (\<forall>d. discount = Finite d \<and> dle discount gross
                  \<longrightarrow> dle (num 0) (dsub gross discount))"
proof -
  let ?subtotal = "orNum (o_subtotal data) (num 0)"
  let ?tax = "orNum (o_tax data) (num 0)"
  let ?importDuty = "orNum (o_importDuty data) (num 0)"
  let ?discount = "orNum (o_discount data) (num 0)"
  let ?gross = "dadd (dadd (dadd ?subtotal ?tax) (num 0)) ?importDuty"
  have computed: "o_totalAmount (calculateMissingTotal data) = Some (dsub ?gross ?discount)"
    using assms by (simp add: calculateMissingTotal_def Let_def)
  have exact: "o_totalAmount (calculateMissingTotal data) = Some (num (s + t + i - d))"
    if "?subtotal = num s" "?tax = num t" "?importDuty = num i" "?discount = num d"
      and "\<bar>s\<bar> < 2 ^ 53" "\<bar>t\<bar> < 2 ^ 53" "\<bar>i\<bar> < 2 ^ 53" "\<bar>d\<bar> < 2 ^ 53"
      and "\<bar>s + t\<bar> < 2 ^ 53" "\<bar>s + t + i\<bar> < 2 ^ 53" "\<bar>s + t + i - d\<bar> < 2 ^ 53"
    for s t i d
  proof -
    have "dadd (num s) (num t) = num (s + t)"
      using that(5,6,9) by (rule dadd_num)
    moreover have "dadd (num (s + t)) (num 0) = num (s + t)"
      using dadd_num [of "s + t" 0] that(9) by simp
    moreover have "dadd (num (s + t)) (num i) = num (s + t + i)"
      using that(9,7,10) by (rule dadd_num)
    moreover have "dsub (num (s + t + i)) (num d) = num (s + t + i - d)"
      using that(10,8,11) by (rule dsub_num)
    ultimately show ?thesis
      using computed that(1-4) by simp
  qed
  have nonneg: "dle (num 0) (dsub ?gross ?discount)"
    if "?discount = Finite d" "dle ?discount ?gross" for d
    using dsub_nonneg [of d ?gross] that by simp
  from computed exact nonneg show ?thesis
    unfolding Let_def by blast
qed

text \<open>On the example: subtotal 100, tax 18, discount 0, shipping cost 0 give exactly 118.\<close>

theorem calculateMissingTotal_reconstructs_total_witness:
  "o_totalAmount (calculateMissingTotal untotalledOrder) = Some (num 118)
   \<and> dle (num 0) (num 118)"
proof -
  have h1: "\<not> truthyNum (o_totalAmount untotalledOrder)" and h2: "\<not> truthyNum (o_total untotalledOrder)"
    by (simp_all add: untotalledOrder_fields truthyNum_def)
  have components:
    "orNum (o_subtotal untotalledOrder) (num 0) = num 100"
    "orNum (o_tax untotalledOrder) (num 0) = num 18"
    "orNum (o_importDuty untotalledOrder) (num 0) = num 0"
    "orNum (o_discount untotalledOrder) (num 0) = num 0"
    by (simp_all add: untotalledOrder_fields orNum_num orNum_absent orNum_zero)
  note total = calculateMissingTotal_reconstructs_total [OF h1 h2, unfolded Let_def components]
  from total have exact:
    "\<forall>s t i d. num 100 = num s \<and> num 18 = num t \<and> num 0 = num i \<and> num 0 = num d
       \<and> \<bar>s\<bar> < 2 ^ 53 \<and> \<bar>t\<bar> < 2 ^ 53 \<and> \<bar>i\<bar> < 2 ^ 53 \<and> \<bar>d\<bar> < 2 ^ 53
       \<and> \<bar>s + t\<bar> < 2 ^ 53 \<and> \<bar>s + t + i\<bar> < 2 ^ 53 \<and> \<bar>s + t + i - d\<bar> < 2 ^ 53
       \<longrightarrow> o_totalAmount (calculateMissingTotal untotalledOrder) = Some (num (s + t + i - d))"
    by blast
  have "o_totalAmount (calculateMissingTotal untotalledOrder) = Some (num (100 + 18 + 0 - 0))"
    by (rule exact [rule_format]) simp
  then have exactly: "o_totalAmount (calculateMissingTotal untotalledOrder) = Some (num 118)"
    by simp
  from total have nonneg:
    "\<forall>d. num 0 = Finite d \<and> dle (num 0) (dadd (dadd (dadd (num 100) (num 18)) (num 0)) (num 0))
       \<longrightarrow> dle (num 0) (dsub (dadd (dadd (dadd (num 100) (num 18)) (num 0)) (num 0)) (num 0))"
    by blast
  have sums: "dadd (dadd (dadd (num 100) (num 18)) (num 0)) (num 0) = num 118"
    "dsub (num 118) (num 0) = num 118"
    by (simp_all add: dadd_num dsub_num)
  have pre: "num 0 = Finite 0
      \<and> dle (num 0) (dadd (dadd (dadd (num 100) (num 18)) (num 0)) (num 0))"
    unfolding sums(1) by (simp add: num_Finite)
  from nonneg [rule_format, OF pre]
  have "dle (num 0) (dsub (dadd (dadd (dadd (num 100) (num 18)) (num 0)) (num 0)) (num 0))" .
  then have "dle (num 0) (num 118)"
    by (simp only: sums)
  with exactly show ?thesis
    by (intro conjI)
qed

subsection \<open>From checkout to shipment\<close>

lemma completeOrder_signed_in:
  "completeOrder st (Some u) f cartItems ps newId now =
     (True, st\<lparr>orders := (orders st)(newId \<mapsto> orderData u f (cartDetails cartItems ps) now)\<rparr>)"
  by (simp add: completeOrder_def)

lemma orderData_placed:
  "o_status (orderData u f details now) = ''Placed''"
  "map se_status (historyOrEmpty (orderData u f details now)) = [''Placed'']"
  by (simp_all add: orderData_def Let_def historyOrEmpty_def)

lemma historyOrEmpty_Some: "o_statusHistory d = Some h \<Longrightarrow> historyOrEmpty d = h"
  by (simp add: historyOrEmpty_def)

lemma updateShippingInfo_packed:
  assumes "orders st oid = Some cur" and "o_status cur = PACKED"
    and "si_trackingNumber si = Some tn" and "tn \<noteq> []"
    and "si_carrier si = Some carrier" and "carrier \<noteq> []"
  shows "\<exists>res st'. updateShippingInfo st oid si admin now = (Inr res, st')
           \<and> orders st' oid =
               Some (cur\<lparr>o_status := SHIPPED,
                         o_tracking := Some (trackingData cur tn carrier si admin now),
                         o_shippedAt := Some now,
                         o_shippedBy := Some admin,
                         o_updatedAt := Some now,
                         o_statusHistory := Some (historyOrEmpty cur @
                           [shippingStatusUpdate tn carrier admin now])\<rparr>)"
  using assms
  by (simp add: updateShippingInfo_def Let_def)

text \<open>
  Approve, pack, attach shipping information, on any order that exists and has one of the
  eight statuses: every step succeeds,
  and the order ends Shipped, with the given tracking code, and with three more history
  entries, for Approved, Packed and Shipped.
\<close>

lemma approve_pack_ship:
  assumes "orders st1 oid = Some d1" and "o_status d1 \<in> set ORDER_STATUSES"
    and "si_trackingNumber si = Some tn" and "tn \<noteq> []"
    and "si_carrier si = Some carrier" and "carrier \<noteq> []"
  shows "let run2 = updateOrderStatus st1 oid APPROVED info2 admin t2;
             run3 = updateOrderStatus (snd (snd run2)) oid PACKED info3 admin t3;
             run4 = updateShippingInfo (snd (snd run3)) oid si admin t4
         in \<exists>res2 res3 res4 d tr.
              fst (snd run2) = Inr res2 \<and> fst (snd run3) = Inr res3 \<and> fst run4 = Inr res4
              \<and> orders (snd run4) oid = Some d
              \<and> o_status d = SHIPPED
              \<and> o_tracking d = Some tr \<and> tr_code tr = Some tn
              \<and> map se_status (historyOrEmpty d) =
                  map se_status (historyOrEmpty d1) @ [APPROVED, PACKED, SHIPPED]"
proof -
  have approved: "APPROVED \<in> set ORDER_STATUSES" and packed: "PACKED \<in> set ORDER_STATUSES"
    by (simp_all add: ORDER_STATUSES_def)
  have no_refund2: "APPROVED \<noteq> REFUNDED \<or> orNumOpt (ui_refundAmount info2) (o_total d1) \<noteq> None"
    by (simp add: status_defs)
  from updateOrderStatus_any_pair [OF assms(1) assms(2) approved no_refund2, of admin t2]
  obtain w2 res2 st2 upd2 where
    run2: "updateOrderStatus st1 oid APPROVED info2 admin t2 = (w2, Inr res2, st2)"
    and "orders st2 = (orders st1)(oid \<mapsto> upd2 d1)"
    and s2: "o_status (upd2 d1) = APPROVED"
    and hist2: "o_statusHistory (upd2 d1) =
                  Some (historyOrEmpty d1 @ [statusHistoryEntry d1 APPROVED info2 admin t2])"
    by blast
  then have o2: "orders st2 oid = Some (upd2 d1)"
    by simp
  let ?d2 = "upd2 d1"
  have enum2: "o_status ?d2 \<in> set ORDER_STATUSES"
    by (simp add: s2 approved)
  have no_refund3: "PACKED \<noteq> REFUNDED \<or> orNumOpt (ui_refundAmount info3) (o_total ?d2) \<noteq> None"
    by (simp add: status_defs)
  from updateOrderStatus_any_pair [OF o2 enum2 packed no_refund3, of admin t3]
  obtain w3 res3 st3 upd3 where
    run3: "updateOrderStatus st2 oid PACKED info3 admin t3 = (w3, Inr res3, st3)"
    and "orders st3 = (orders st2)(oid \<mapsto> upd3 ?d2)"
    and s3: "o_status (upd3 ?d2) = PACKED"
    and hist3: "o_statusHistory (upd3 ?d2) =
                  Some (historyOrEmpty ?d2 @ [statusHistoryEntry ?d2 PACKED info3 admin t3])"
    by blast
  then have o3: "orders st3 oid = Some (upd3 ?d2)"
    by simp
  let ?d3 = "upd3 ?d2"
  have h2: "historyOrEmpty ?d2 = historyOrEmpty d1 @ [statusHistoryEntry d1 APPROVED info2 admin t2]"
    using hist2 by (rule historyOrEmpty_Some)
  have "historyOrEmpty ?d3 = historyOrEmpty ?d2 @ [statusHistoryEntry ?d2 PACKED info3 admin t3]"
    using hist3 by (rule historyOrEmpty_Some)
  with h2 have h3: "map se_status (historyOrEmpty ?d3) = map se_status (historyOrEmpty d1) @ [APPROVED, PACKED]"
    by (simp add: statusHistoryEntry_def)
  from updateShippingInfo_packed [OF o3 s3 assms(3-6), of admin t4]
  obtain res4 st4 where
    run4: "updateShippingInfo st3 oid si admin t4 = (Inr res4, st4)"
    and o4: "orders st4 oid =
               Some (?d3\<lparr>o_status := SHIPPED,
                         o_tracking := Some (trackingData ?d3 tn carrier si admin t4),
                         o_shippedAt := Some t4,
                         o_shippedBy := Some admin,
                         o_updatedAt := Some t4,
                         o_statusHistory := Some (historyOrEmpty ?d3 @
                           [shippingStatusUpdate tn carrier admin t4])\<rparr>)"
      (is "_ = Some ?d4")
    by blast
  have "o_status ?d4 = SHIPPED"
    by simp
  moreover have "o_tracking ?d4 = Some (trackingData ?d3 tn carrier si admin t4)"
    by simp
  moreover have "tr_code (trackingData ?d3 tn carrier si admin t4) = Some tn"
    by (simp add: trackingData_def)
  moreover have "map se_status (historyOrEmpty ?d4) =
                   map se_status (historyOrEmpty d1) @ [APPROVED, PACKED, SHIPPED]"
  proof -
    have "historyOrEmpty ?d4 = historyOrEmpty ?d3 @ [shippingStatusUpdate tn carrier admin t4]"
      by (rule historyOrEmpty_Some) simp
    moreover have "se_status (shippingStatusUpdate tn carrier admin t4) = SHIPPED"
      by (simp add: shippingStatusUpdate_def Let_def)
    ultimately show ?thesis
      using h3 by simp
  qed
  ultimately show ?thesis
    using run2 run3 run4 o4 by (simp add: Let_def)
qed

text \<open>
  C5, as stated, fails on the length of the history: checkout itself writes the first entry
  (Placed, "Order placed successfully"), so after the three steps the example order has four
  entries, for Placed, Approved, Packed and Shipped, not three.
\<close>

theorem checkout_approve_pack_ship_counterexample:
  "map_option (\<lambda>d. map se_status (historyOrEmpty d)) (orders shippedStore ''order1'') =
     Some [''Placed'', ''Approved'', ''Packed'', ''Shipped'']
   \<and> map_option (\<lambda>d. length (historyOrEmpty d)) (orders shippedStore ''order1'') = Some 4
   \<and> map_option (\<lambda>d. length (historyOrEmpty d)) (orders shippedStore ''order1'') \<noteq> Some 3"
proof -
  have tn: "si_trackingNumber exampleShippingInfo = Some ''X123''" "''X123'' \<noteq> []"
    and carrier: "si_carrier exampleShippingInfo = Some ''DHL''" "''DHL'' \<noteq> []"
    by (simp_all add: exampleShippingInfo_def)
  have enum: "o_status exampleOrder \<in> set ORDER_STATUSES"
    by (simp add: exampleOrder_status ORDER_STATUSES_def status_defs)
  from approve_pack_ship [OF placedStore_order enum tn carrier, of noUpdateInfo "''admin''" 2000 noUpdateInfo 3000 4000]
  obtain d where "orders shippedStore ''order1'' = Some d"
    and "map se_status (historyOrEmpty d) =
           map se_status (historyOrEmpty exampleOrder) @ [APPROVED, PACKED, SHIPPED]"
    unfolding Let_def shippedStore_def packedStore_def approvedStore_def by blast
  moreover have "map se_status (historyOrEmpty exampleOrder) = [''Placed'']"
    unfolding exampleOrder_def by (rule orderData_placed)
  ultimately obtain d where stored: "orders shippedStore ''order1'' = Some d"
    and statuses: "map se_status (historyOrEmpty d) = [''Placed'', ''Approved'', ''Packed'', ''Shipped'']"
    by (simp add: status_defs)
  from arg_cong [OF statuses, of length] have "length (historyOrEmpty d) = 4"
    by simp
  with stored statuses show ?thesis
    by simp
qed

text \<open>
  C5, amended. Starting from an order created at checkout by a signed-in customer (status
  Placed, one history entry), approving it, packing it and attaching the shipping information
  \<open>{carrier: 'DHL', trackingNumber: 'X123'}\<close> succeed one after the other and leave the order
  with status Shipped, tracking code X123 and a history of four entries: Placed, Approved,
  Packed, Shipped.
\<close>

theorem checkout_approve_pack_ship:
  "let st1 = snd (completeOrder st (Some customer) form cartItems ps orderId t1);
       run2 = updateOrderStatus st1 orderId ''Approved'' info2 adminUserId t2;
       run3 = updateOrderStatus (snd (snd run2)) orderId ''Packed'' info3 adminUserId t3;
       run4 = updateShippingInfo (snd (snd run3)) orderId exampleShippingInfo adminUserId t4
   in \<exists>res2 res3 res4 d tr.
        fst (snd run2) = Inr res2 \<and> fst (snd run3) = Inr res3 \<and> fst run4 = Inr res4
        \<and> orders (snd run4) orderId = Some d
        \<and> o_status d = ''Shipped''
        \<and> o_tracking d = Some tr \<and> tr_code tr = Some ''X123''
        \<and> map se_status (historyOrEmpty d) = [''Placed'', ''Approved'', ''Packed'', ''Shipped'']
        \<and> length (historyOrEmpty d) = 4"
proof -
  let ?d1 = "orderData customer form (cartDetails cartItems ps) t1"
  let ?st1 = "snd (completeOrder st (Some customer) form cartItems ps orderId t1)"
  have o1: "orders ?st1 orderId = Some ?d1"
    by (simp add: completeOrder_signed_in)
  have tn: "si_trackingNumber exampleShippingInfo = Some ''X123''" "''X123'' \<noteq> []"
    and carrier: "si_carrier exampleShippingInfo = Some ''DHL''" "''DHL'' \<noteq> []"
    by (simp_all add: exampleShippingInfo_def)
  have len: "length (historyOrEmpty d) = 4"
    if "map se_status (historyOrEmpty d) = [''Placed'', ''Approved'', ''Packed'', ''Shipped'']" for d
    using arg_cong [OF that, of length] by simp
  have enum: "o_status ?d1 \<in> set ORDER_STATUSES"
    by (simp add: orderData_placed ORDER_STATUSES_def status_defs)
  from approve_pack_ship [OF o1 enum tn carrier, of info2 adminUserId t2 info3 t3 t4] len
  show ?thesis
    unfolding Let_def by (fastforce simp: orderData_placed status_defs)
qed

text \<open>On the example: the order of the example cart, followed through the three steps.\<close>

theorem checkout_approve_pack_ship_witness:
  "map_option o_status (orders shippedStore ''order1'') = Some ''Shipped''
   \<and> map_option (\<lambda>d. map_option tr_code (o_tracking d)) (orders shippedStore ''order1'') =
       Some (Some (Some ''X123''))
   \<and> map_option (\<lambda>d. length (historyOrEmpty d)) (orders shippedStore ''order1'') = Some 4"
proof -
  from checkout_approve_pack_ship
    [of exampleStore exampleUser exampleForm exampleCart exampleProducts "''order1''" 1000
        noUpdateInfo "''admin''" 2000 noUpdateInfo 3000 4000]
  obtain d tr where "orders shippedStore ''order1'' = Some d" "o_status d = ''Shipped''"
    "o_tracking d = Some tr" "tr_code tr = Some ''X123''" "length (historyOrEmpty d) = 4"
    unfolding Let_def shippedStore_def packedStore_def approvedStore_def placedStore_def status_defs
    by blast
  then show ?thesis
    by simp
qed

end
